theory Spec2Isabelle
  imports Complex_Main "HOL-Library.Multiset" "HOL-Library.Char_ord" "HOL-Library.List_Lexorder"
begin

section \<open>Accident detection and alert dispatch (app.py)\<close>

text \<open>
  A shallow embedding of the detection and alert core of \<^verbatim>\<open>app.py\<close>.
  Python floats are read as real numbers and the clock as a real number of seconds.
  Module-level globals that are assigned once at import time form the record
  \<open>config\<close>; globals that requests mutate form the record \<open>app_state\<close>.
  What a call obtains from outside the program (the clock, the random generator, the
  outcome of a network operation) is read from the record \<open>env\<close>.
  The frame type is a parameter \<open>'f\<close>: the program only hands frames to OpenCV,
  NumPy and the YOLO model.
\<close>

subsection \<open>Data\<close>

text \<open>
  One YOLO box: \<^verbatim>\<open>int(box.cls[0])\<close>, \<^verbatim>\<open>float(box.conf[0])\<close> and
  \<^verbatim>\<open>box.xyxy[0].tolist()\<close>; \<open>xyxy = None\<close> stands for the read of the coordinates
  raising, which lines 303-310 catch.
\<close>

record box =
  cls :: int
  conf :: real
  xyxy :: "(real \<times> real \<times> real \<times> real) option"

text \<open>
  The dictionary appended to \<^verbatim>\<open>boxes_info\<close> (lines 305-308); the arguments are its
  keys \<^verbatim>\<open>x1, y1, x2, y2, class_id, confidence\<close> in this order.
\<close>

datatype box_info = Box_info real real real real int real

text \<open>\<^verbatim>\<open>result.boxes\<close> of one element of \<^verbatim>\<open>results\<close>; it may be \<^verbatim>\<open>None\<close>.\<close>

type_synonym result = "box list option"

text \<open>
  The attributes of \<^verbatim>\<open>AccidentDetector\<close> and its constructor (lines 265-268), which
  takes no argument.
\<close>

record 'f detector_state =
  accident_threshold :: real
  previous_frame :: "'f option"
  accident_detected :: bool

definition init_detector :: "unit \<Rightarrow> 'f detector_state" where
  "init_detector u =
     \<lparr>accident_threshold = 0.5, previous_frame = None, accident_detected = False\<rparr>"

text \<open>
  The globals assigned at import time. \<open>model = None\<close> is Python's
  \<^verbatim>\<open>model is None\<close>; otherwise \<open>model\<close> maps a frame to the list
  \<^verbatim>\<open>model(cv2.cvtColor(frame, cv2.COLOR_BGR2RGB))\<close>, or to \<open>None\<close> when that raises.
  \<open>motion_score cur prev\<close> is lines 314-319 (grey conversion, \<^verbatim>\<open>absdiff\<close>,
  \<^verbatim>\<open>np.mean(...) / 255.0\<close>), \<open>None\<close> when one of them raises.
\<close>

record 'f config =
  COMPUTER_VISION_AVAILABLE :: bool
  YOLO_AVAILABLE :: bool
  model :: "('f \<Rightarrow> result list option) option"
  motion_score :: "'f \<Rightarrow> 'f \<Rightarrow> real option"
  LOCATION_SERVICES_AVAILABLE :: bool
  ALERT_COOLDOWN_SECONDS :: int
  twilio_client :: bool
  TWILIO_PHONE_NUMBER :: string
  SMTP_HOST :: string
  SMTP_PORT :: int
  SMTP_USER :: string
  SMTP_PASSWORD :: string
  ALERT_EMAILS :: "string list"

text \<open>
  What one call reads from outside the program: \<open>now\<close> is \<^verbatim>\<open>time.time()\<close>,
  \<open>isoformat_now\<close> is \<^verbatim>\<open>datetime.now().isoformat()\<close>, \<open>rnd_random\<close> is the value of
  \<^verbatim>\<open>random.random()\<close>, \<open>rnd_unit\<close> is the value of \<^verbatim>\<open>random()\<close> inside
  \<^verbatim>\<open>random.uniform\<close>, \<open>rnd_randint\<close> is the value of \<^verbatim>\<open>random.randint(0, 3)\<close>.
  The remaining fields say whether an external operation succeeds (\<open>True\<close>) or raises.
\<close>

record env =
  now :: real
  isoformat_now :: string
  rnd_random :: real
  rnd_unit :: real
  rnd_randint :: nat
  geocode :: "string option option"
  insert_one_ok :: bool
  messages_create_ok :: "string \<Rightarrow> bool"
  firestore_add_ok :: bool
  smtp_ok :: bool

subsection \<open>AccidentDetector.detect_accident (lines 270-340)\<close>

text \<open>\<^verbatim>\<open>random.uniform(a, b)\<close> is \<^verbatim>\<open>a + (b - a) * random()\<close>.\<close>

definition uniform :: "real \<Rightarrow> real \<Rightarrow> real \<Rightarrow> real" where
  "uniform a b u = a + (b - a) * u"

text \<open>Line 300: the box is a vehicle (car, motorcycle, bus, truck) above the floor.\<close>

definition vehicle_box :: "box \<Rightarrow> bool" where
  "vehicle_box b = (cls b \<in> set [2, 3, 5, 7] \<and> conf b > 0.3)"

text \<open>Lines 329 and 277: the condition of the decision.\<close>

definition raw_condition :: "real \<Rightarrow> real \<Rightarrow> nat \<Rightarrow> bool" where
  "raw_condition thr accident_score vehicles_detected =
     (accident_score > thr \<and> vehicles_detected > 0)"

text \<open>
  The loop \<^verbatim>\<open>for box in boxes\<close> (lines 295-323) on the three accumulators
  \<^verbatim>\<open>accident_score\<close>, \<^verbatim>\<open>vehicles_detected\<close> and \<^verbatim>\<open>boxes_info\<close>.
  \<open>prev\<close> is \<^verbatim>\<open>self.previous_frame\<close>, which the loop does not assign.
  The result is \<open>None\<close> when the motion computation raises.
\<close>

fun scan_boxes ::
  "('f \<Rightarrow> 'f \<Rightarrow> real option) \<Rightarrow> 'f \<Rightarrow> 'f option \<Rightarrow> box list \<Rightarrow>
     real \<times> nat \<times> box_info list \<Rightarrow> (real \<times> nat \<times> box_info list) option" where
  "scan_boxes ms frame prev [] acc = Some acc"
| "scan_boxes ms frame prev (b # bs) (accident_score, vehicles_detected, boxes_info) =
     (if vehicle_box b then
        (let vehicles_detected' = vehicles_detected + 1;
             boxes_info' =
               (case xyxy b of
                  Some (a1, b1, a2, b2) \<Rightarrow>
                    boxes_info @ [Box_info a1 b1 a2 b2 (cls b) (conf b)]
                | None \<Rightarrow> boxes_info)
         in case prev of
              None \<Rightarrow> scan_boxes ms frame prev bs (accident_score, vehicles_detected', boxes_info')
            | Some p \<Rightarrow>
                (case ms frame p of
                   None \<Rightarrow> None
                 | Some m \<Rightarrow>
                     scan_boxes ms frame prev bs
                       (if m > 0.15 then accident_score + conf b * m else accident_score,
                        vehicles_detected', boxes_info')))
      else scan_boxes ms frame prev bs (accident_score, vehicles_detected, boxes_info))"

text \<open>The body of \<^verbatim>\<open>if boxes is not None\<close> for one result (lines 293-323).\<close>

definition scan_result ::
  "('f \<Rightarrow> 'f \<Rightarrow> real option) \<Rightarrow> 'f \<Rightarrow> 'f option \<Rightarrow> result \<Rightarrow>
     real \<times> nat \<times> box_info list \<Rightarrow> (real \<times> nat \<times> box_info list) option" where
  "scan_result ms frame prev r acc =
     (case r of None \<Rightarrow> Some acc | Some bs \<Rightarrow> scan_boxes ms frame prev bs acc)"

type_synonym outcome = "bool \<times> real \<times> nat \<times> box_info list"

text \<open>
  The loop \<^verbatim>\<open>for result in results\<close> (lines 292-334) and the return after it
  (line 336). Storing the frame and the decision are inside the loop body, after the
  loop over the boxes of the result. An exception leaves the loop for the handler of
  lines 338-340, with the assignments made so far in place.
\<close>

fun scan_results ::
  "('f \<Rightarrow> 'f \<Rightarrow> real option) \<Rightarrow> 'f \<Rightarrow> result list \<Rightarrow>
     real \<times> nat \<times> box_info list \<Rightarrow> 'f detector_state \<Rightarrow> outcome \<times> 'f detector_state" where
  "scan_results ms frame [] (accident_score, vehicles_detected, boxes_info) st =
     ((False, accident_score, vehicles_detected, boxes_info), st)"
| "scan_results ms frame (r # rs) acc st =
     (case scan_result ms frame (previous_frame st) r acc of
        None \<Rightarrow> ((False, 0, 0, []), st)
      | Some (accident_score, vehicles_detected, boxes_info) \<Rightarrow>
          (let st1 = st\<lparr>previous_frame := Some frame\<rparr>
           in if raw_condition (accident_threshold st1) accident_score vehicles_detected then
                (if \<not> accident_detected st1 then
                   ((True, accident_score, vehicles_detected, boxes_info),
                    st1\<lparr>accident_detected := True\<rparr>)
                 else scan_results ms frame rs (accident_score, vehicles_detected, boxes_info) st1)
              else scan_results ms frame rs (accident_score, vehicles_detected, boxes_info)
                     (st1\<lparr>accident_detected := False\<rparr>)))"

definition detect_accident ::
  "'f config \<Rightarrow> env \<Rightarrow> 'f detector_state \<Rightarrow> 'f \<Rightarrow> outcome \<times> 'f detector_state" where
  "detect_accident cfg e st frame =
     (if \<not> COMPUTER_VISION_AVAILABLE cfg \<or> \<not> YOLO_AVAILABLE cfg \<or> model cfg = None then
        (let accident_score = uniform 0.1 0.9 (rnd_unit e);
             vehicles_detected = rnd_randint e;
             is_accident = raw_condition (accident_threshold st) accident_score vehicles_detected
         in ((is_accident, accident_score, vehicles_detected, []), st))
      else
        (case the (model cfg) frame of
           None \<Rightarrow> ((False, 0, 0, []), st)
         | Some results \<Rightarrow> scan_results (motion_score cfg) frame results (0, 0, []) st))"

text \<open>
  The model-backed path on a frame for which the model returns one result, as YOLO does
  for one image, and nothing raises: the evidence \<^verbatim>\<open>(accident_score,
  vehicles_detected, boxes_info)\<close> that the decision of line 329 reads.
\<close>

definition frame_evidence ::
  "'f config \<Rightarrow> 'f detector_state \<Rightarrow> 'f \<Rightarrow> (real \<times> nat \<times> box_info list) option" where
  "frame_evidence cfg st frame =
     (if \<not> COMPUTER_VISION_AVAILABLE cfg \<or> \<not> YOLO_AVAILABLE cfg then None
      else case model cfg of
             None \<Rightarrow> None
           | Some m \<Rightarrow>
               (case m frame of
                  Some [r] \<Rightarrow> scan_result (motion_score cfg) frame (previous_frame st) r (0, 0, [])
                | _ \<Rightarrow> None))"



subsection \<open>Records, stores and the mutable globals\<close>

text \<open>\<^verbatim>\<open>f"Lat: {lat}, Lng: {lng}"\<close> or the address the geocoder returns.\<close>

datatype location = Lat_Lng real real | Address string

text \<open>The dictionary \<^verbatim>\<open>current_location\<close>: latitude and longitude.\<close>

type_synonym coordinates = "real \<times> real"

text \<open>The dictionary \<^verbatim>\<open>accident_data\<close> built by the route (lines 564-569).\<close>

record accident_data =
  location :: location
  coordinates :: coordinates
  confidence :: real
  vehicles_detected :: nat

text \<open>\<^verbatim>\<open>accident_record\<close> (lines 360-367): the same keys, a timestamp and a status.\<close>

record accident_record = accident_data +
  timestamp :: string
  status :: string

text \<open>
  What \<^verbatim>\<open>send_alert\<close> and \<^verbatim>\<open>send_email_alert\<close> do to the outside, in order: a call of
  \<^verbatim>\<open>twilio_client.messages.create\<close> for a contact and whether it succeeded, an SMTP
  session and whether it succeeded, and the lines they print.
\<close>

datatype event =
    Sms_attempt string bool
  | Email_attempt bool
  | Print_failed_to_send_SMS string
  | Print_email_send_failed
  | Print_alert_sent
  | Print_error_sending_alert

text \<open>
  The globals that requests mutate. \<open>accidents_collection\<close> and \<open>db_firestore\<close> are
  \<open>None\<close> when the Python handle is \<^verbatim>\<open>None\<close> and hold the stored documents otherwise.
\<close>

record 'f app_state =
  detector :: "'f detector_state"
  last_alert_time :: real
  accidents_db :: "accident_record list"
  accidents_collection :: "accident_record list option"
  db_firestore :: "accident_record list option"
  current_location :: coordinates
  trace :: "event list"

text \<open>Line 176.\<close>

definition init_last_alert_time :: real where
  "init_last_alert_time = 0"

text \<open>
  Lines 172-175: \<^verbatim>\<open>int(os.getenv('ALERT_COOLDOWN_SECONDS', '20') or 20)\<close> with the
  handler that falls back to 20. The variable is unset, empty, the text of an integer,
  or some other text.
\<close>

datatype env_var = Unset | Empty_text | Int_text int | Other_text

fun load_cooldown :: "env_var \<Rightarrow> int" where
  "load_cooldown Unset = 20"
| "load_cooldown Empty_text = 20"
| "load_cooldown (Int_text k) = k"
| "load_cooldown Other_text = 20"

subsection \<open>get_location_info (lines 344-354)\<close>

text \<open>
  \<open>geocode e\<close> is the outcome of \<^verbatim>\<open>geolocator.reverse\<close>: \<open>None\<close> when it raises,
  \<open>Some None\<close> when it returns nothing, \<open>Some (Some a)\<close> with the address otherwise.
\<close>

definition get_location_info :: "'f config \<Rightarrow> env \<Rightarrow> real \<Rightarrow> real \<Rightarrow> location" where
  "get_location_info cfg e lat lng =
     (if \<not> LOCATION_SERVICES_AVAILABLE cfg then Lat_Lng lat lng
      else case geocode e of
             None \<Rightarrow> Lat_Lng lat lng
           | Some None \<Rightarrow> Lat_Lng lat lng
           | Some (Some a) \<Rightarrow> Address a)"

subsection \<open>send_email_alert (lines 153-169) and send_alert (lines 356-422)\<close>

definition send_email_alert :: "'f config \<Rightarrow> env \<Rightarrow> bool \<times> event list" where
  "send_email_alert cfg e =
     (if \<not> (SMTP_HOST cfg \<noteq> [] \<and> SMTP_PORT cfg \<noteq> 0 \<and> SMTP_USER cfg \<noteq> [] \<and>
            SMTP_PASSWORD cfg \<noteq> [] \<and> ALERT_EMAILS cfg \<noteq> [])
      then (False, [])
      else if smtp_ok e then (True, [Email_attempt True])
      else (False, [Email_attempt False, Print_email_send_failed]))"

text \<open>Line 390.\<close>

definition emergency_contacts :: "string list" where
  "emergency_contacts = [''+1234567890'', ''+0987654321'']"

text \<open>The loop of lines 392-400: each contact in its own \<^verbatim>\<open>try\<close>.\<close>

fun send_sms :: "env \<Rightarrow> string list \<Rightarrow> event list" where
  "send_sms e [] = []"
| "send_sms e (contact # contacts) =
     (if messages_create_ok e contact then [Sms_attempt contact True]
      else [Sms_attempt contact False, Print_failed_to_send_SMS contact])
     @ send_sms e contacts"

text \<open>
  \<^verbatim>\<open>send_alert\<close>. The two store writes are not in a \<^verbatim>\<open>try\<close> of their own: when one
  raises, control goes to the handler of lines 420-422, which prints and returns
  \<^verbatim>\<open>False\<close>.
\<close>

definition send_alert ::
  "'f config \<Rightarrow> env \<Rightarrow> 'f app_state \<Rightarrow> accident_data \<Rightarrow> bool \<times> 'f app_state" where
  "send_alert cfg e st accident_data =
     (let accident_record =
            \<lparr>location = location accident_data,
             coordinates = coordinates accident_data,
             confidence = confidence accident_data,
             vehicles_detected = vehicles_detected accident_data,
             timestamp = isoformat_now e,
             status = ''alert_sent''\<rparr>;
          stored =
            (case accidents_collection st of
               Some docs \<Rightarrow>
                 (if insert_one_ok e
                  then Some (st\<lparr>accidents_collection := Some (docs @ [accident_record])\<rparr>)
                  else None)
             | None \<Rightarrow> Some (st\<lparr>accidents_db := accidents_db st @ [accident_record]\<rparr>))
      in case stored of
           None \<Rightarrow> (False, st\<lparr>trace := trace st @ [Print_error_sending_alert]\<rparr>)
         | Some st1 \<Rightarrow>
             (let st2 =
                    (if twilio_client cfg
                     then st1\<lparr>trace := trace st1 @ send_sms e emergency_contacts\<rparr>
                     else st1);
                  mirrored =
                    (case db_firestore st2 of
                       Some docs \<Rightarrow>
                         (if firestore_add_ok e
                          then Some (st2\<lparr>db_firestore := Some (docs @ [accident_record])\<rparr>)
                          else None)
                     | None \<Rightarrow> Some st2)
              in case mirrored of
                   None \<Rightarrow> (False, st2\<lparr>trace := trace st2 @ [Print_error_sending_alert]\<rparr>)
                 | Some st3 \<Rightarrow>
                     (True, st3\<lparr>trace := trace st3 @ snd (send_email_alert cfg e)
                                                   @ [Print_alert_sent]\<rparr>)))"

subsection \<open>The route /detect (lines 488-582)\<close>

text \<open>
  The JSON body: \<open>image\<close> is missing or empty, or it is text that the decoding of
  lines 544-546 rejects, or it decodes to a frame; \<open>threshold\<close> is missing or null
  (\<open>No_threshold\<close>), or a JSON float, or any other value that \<^verbatim>\<open>float\<close> turns into
  the number given (\<open>Threshold\<close>), or a JSON integer, which Python parses to an \<^verbatim>\<open>int\<close> of
  any size (\<open>Threshold_int\<close>), or a value on which \<^verbatim>\<open>float\<close> raises, such as a text
  that is no number (\<open>Bad_threshold\<close>).
\<close>

datatype 'f image_field = No_image | Undecodable | Image 'f

datatype threshold_field = No_threshold | Threshold real | Threshold_int int | Bad_threshold

text \<open>
  \<^verbatim>\<open>float(n)\<close> for an \<^verbatim>\<open>int\<close>: the conversion rounds to the nearest double and raises
  \<^verbatim>\<open>OverflowError\<close> (\<open>None\<close>) when that is beyond the largest double, that is from
  \<open>2 ^ 1024 - 2 ^ 970\<close> on in magnitude. Below that bound the value is read as the
  integer itself.
\<close>

definition py_float :: "int \<Rightarrow> real option" where
  "py_float n = (if \<bar>n\<bar> < 2 ^ 1024 - 2 ^ 970 then Some (real_of_int n) else None)"

record 'f request =
  image :: "'f image_field"
  threshold :: threshold_field

text \<open>
  The dictionary \<^verbatim>\<open>result\<close>; a key that is not set is \<open>None\<close>. Its keys
  \<^verbatim>\<open>accident_detected\<close>, \<^verbatim>\<open>confidence\<close>, \<^verbatim>\<open>vehicles_detected\<close>, \<^verbatim>\<open>boxes\<close> and
  \<^verbatim>\<open>timestamp\<close> carry the prefix \<open>r_\<close> here.
\<close>

record detect_result =
  r_accident_detected :: bool
  r_confidence :: real
  r_vehicles_detected :: nat
  r_boxes :: "box_info list"
  r_timestamp :: string
  demo_mode :: "bool option"
  alert_sent :: "bool option"
  alert_suppressed :: "bool option"

datatype route_error = No_image_data_provided | Exception_raised

datatype response = Error route_error | Result detect_result

text \<open>
  Lines 522-539 and lines 560-577 are the same text: the cooldown check, the assignment
  of \<^verbatim>\<open>last_alert_time\<close>, the call of \<^verbatim>\<open>send_alert\<close>, whose value is dropped,
  and the keys \<^verbatim>\<open>alert_sent\<close> and \<^verbatim>\<open>alert_suppressed\<close>.
\<close>

text \<open>Line 562, the check, and line 563, the assignment: two statements.\<close>

definition gate_check :: "'f config \<Rightarrow> 'f app_state \<Rightarrow> real \<Rightarrow> bool" where
  "gate_check cfg st t = (t - last_alert_time st \<ge> real_of_int (ALERT_COOLDOWN_SECONDS cfg))"

definition gate_set :: "'f app_state \<Rightarrow> real \<Rightarrow> 'f app_state" where
  "gate_set st t = st\<lparr>last_alert_time := t\<rparr>"

definition gate_and_dispatch ::
  "'f config \<Rightarrow> env \<Rightarrow> 'f app_state \<Rightarrow> bool \<Rightarrow> real \<Rightarrow> nat \<Rightarrow> detect_result \<Rightarrow>
     response \<times> 'f app_state" where
  "gate_and_dispatch cfg e st is_accident conf_value vehicles result =
     (if is_accident then
        (if gate_check cfg st (now e) then
           (let st1 = gate_set st (now e);
                accident_data =
                  \<lparr>location = get_location_info cfg e (fst (current_location st1))
                                (snd (current_location st1)),
                   coordinates = current_location st1,
                   confidence = conf_value,
                   vehicles_detected = vehicles\<rparr>;
                st2 = snd (send_alert cfg e st1 accident_data)
            in (Result (result\<lparr>alert_sent := Some True, alert_suppressed := Some False\<rparr>), st2))
         else (Result (result\<lparr>alert_sent := Some False, alert_suppressed := Some True\<rparr>), st))
      else (Result (result\<lparr>alert_suppressed := Some False\<rparr>), st))"

text \<open>
  The route. The body is \<open>None\<close> when \<^verbatim>\<open>request.get_json()\<close> gives no dictionary, so
  that line 494 raises.
\<close>

text \<open>
  Lines 495-501: the threshold of the request is stored, clamped, before anything else
  is looked at; an exception of \<^verbatim>\<open>float\<close> is swallowed by the handler of lines 500-501
  and the threshold keeps its value.
\<close>

definition set_threshold :: "threshold_field \<Rightarrow> 'f app_state \<Rightarrow> 'f app_state" where
  "set_threshold tf st =
     (case tf of
        Threshold t \<Rightarrow>
          st\<lparr>detector := (detector st)\<lparr>accident_threshold := max 0.1 (min 1.0 t)\<rparr>\<rparr>
      | Threshold_int n \<Rightarrow>
          (case py_float n of
             Some t \<Rightarrow>
               st\<lparr>detector := (detector st)\<lparr>accident_threshold := max 0.1 (min 1.0 t)\<rparr>\<rparr>
           | None \<Rightarrow> st)
      | No_threshold \<Rightarrow> st
      | Bad_threshold \<Rightarrow> st)"

definition detect_route ::
  "'f config \<Rightarrow> env \<Rightarrow> 'f app_state \<Rightarrow> 'f request option \<Rightarrow> response \<times> 'f app_state" where
  "detect_route cfg e st body =
     (case body of
        None \<Rightarrow> (Error Exception_raised, st)
      | Some data \<Rightarrow>
          (let st1 = set_threshold (threshold data) st
           in if image data = No_image then (Error No_image_data_provided, st1)
              else if \<not> COMPUTER_VISION_AVAILABLE cfg \<or> \<not> YOLO_AVAILABLE cfg then
                (let is_accident = (rnd_random e > 0.8);
                     conf_value = uniform 0.1 0.95 (rnd_unit e);
                     vehicles = rnd_randint e;
                     result =
                       \<lparr>r_accident_detected = is_accident, r_confidence = conf_value,
                        r_vehicles_detected = vehicles, r_boxes = [],
                        r_timestamp = isoformat_now e, demo_mode = Some True,
                        alert_sent = None, alert_suppressed = None\<rparr>
                 in gate_and_dispatch cfg e st1 is_accident conf_value vehicles result)
              else
                (case image data of
                   No_image \<Rightarrow> (Error No_image_data_provided, st1)
                 | Undecodable \<Rightarrow> (Error Exception_raised, st1)
                 | Image frame \<Rightarrow>
                     (case detect_accident cfg e (detector st1) frame of
                        ((is_accident, conf_value, vehicles, boxes), d) \<Rightarrow>
                          (let st2 = st1\<lparr>detector := d\<rparr>;
                               result =
                                 \<lparr>r_accident_detected = is_accident, r_confidence = conf_value,
                                  r_vehicles_detected = vehicles, r_boxes = boxes,
                                  r_timestamp = isoformat_now e, demo_mode = None,
                                  alert_sent = None, alert_suppressed = None\<rparr>
                           in gate_and_dispatch cfg e st2 is_accident conf_value vehicles result)))))"

text \<open>
  Requests handled one after the other, each to completion, on the globals the previous
  one left: the list pairs every request with what it reads from outside.
\<close>

fun run_requests ::
  "'f config \<Rightarrow> 'f app_state \<Rightarrow> (env \<times> 'f request option) list \<Rightarrow>
     response list \<times> 'f app_state" where
  "run_requests cfg st [] = ([], st)"
| "run_requests cfg st ((e, body) # rest) =
     (case detect_route cfg e st body of
        (resp, st1) \<Rightarrow>
          (case run_requests cfg st1 rest of
             (resps, st2) \<Rightarrow> (resp # resps, st2)))"

text \<open>The globals after each of the requests, in order.\<close>

fun states_after ::
  "'f config \<Rightarrow> 'f app_state \<Rightarrow> (env \<times> 'f request option) list \<Rightarrow> 'f app_state list" where
  "states_after cfg st [] = []"
| "states_after cfg st ((e, body) # rest) =
     snd (detect_route cfg e st body)
       # states_after cfg (snd (detect_route cfg e st body)) rest"

subsection \<open>Two requests at the gate at once\<close>

text \<open>
  The route takes no lock and the module starts no queue: \<^verbatim>\<open>threading\<close> is imported and
  not used. Two requests that both report an accident reach the gate, each with the
  clock value it read at line 561. A request is before the check of line 562
  (\<open>At_check\<close>), or has passed it and is before the assignment of line 563 (\<open>At_set\<close>),
  or has assigned and goes on to \<^verbatim>\<open>send_alert\<close> (\<open>Passed\<close>), or has failed the check
  (\<open>Suppressed\<close>). A schedule names the request that runs its next statement.
\<close>

datatype thread = Thread_A | Thread_B

datatype gate_pc = At_check | At_set | Passed | Suppressed

fun thread_step ::
  "'f config \<Rightarrow> real \<Rightarrow> gate_pc \<Rightarrow> 'f app_state \<Rightarrow> gate_pc \<times> 'f app_state" where
  "thread_step cfg t At_check st = (if gate_check cfg st t then At_set else Suppressed, st)"
| "thread_step cfg t At_set st = (Passed, gate_set st t)"
| "thread_step cfg t Passed st = (Passed, st)"
| "thread_step cfg t Suppressed st = (Suppressed, st)"

fun run_schedule ::
  "'f config \<Rightarrow> real \<Rightarrow> real \<Rightarrow> thread list \<Rightarrow> gate_pc \<times> gate_pc \<times> 'f app_state \<Rightarrow>
     gate_pc \<times> gate_pc \<times> 'f app_state" where
  "run_schedule cfg ta tb [] w = w"
| "run_schedule cfg ta tb (Thread_A # sched) (pa, pb, st) =
     (case thread_step cfg ta pa st of
        (pa1, st1) \<Rightarrow> run_schedule cfg ta tb sched (pa1, pb, st1))"
| "run_schedule cfg ta tb (Thread_B # sched) (pa, pb, st) =
     (case thread_step cfg tb pb st of
        (pb1, st1) \<Rightarrow> run_schedule cfg ta tb sched (pa, pb1, st1))"

text \<open>Both requests have passed the gate.\<close>

fun both_passed :: "gate_pc \<times> gate_pc \<times> 'f app_state \<Rightarrow> bool" where
  "both_passed (pa, pb, st) = (pa = Passed \<and> pb = Passed)"

subsection \<open>The route /accidents (lines 595-606)\<close>




subsection \<open>Concrete inputs\<close>

text \<open>
  Three boxes, a configuration with a loaded model that reports them for every frame
  (frames are numbered) and a motion score of 0.8 between different frames, and a
  detector that has already seen frame 0.
\<close>

definition car :: box where
  "car = \<lparr>cls = 2, conf = 0.9, xyxy = Some (10, 20, 110, 220)\<rparr>"

definition truck :: box where
  "truck = \<lparr>cls = 7, conf = 0.5, xyxy = None\<rparr>"

definition person :: box where
  "person = \<lparr>cls = 0, conf = 0.95, xyxy = Some (0, 0, 50, 50)\<rparr>"

definition yolo_cfg :: "nat config" where
  "yolo_cfg =
     \<lparr>COMPUTER_VISION_AVAILABLE = True, YOLO_AVAILABLE = True,
      model = Some (\<lambda>f. Some [Some [car, person, truck]]),
      motion_score = (\<lambda>a b. Some (if a = b then 0 else 0.8)),
      LOCATION_SERVICES_AVAILABLE = False, ALERT_COOLDOWN_SECONDS = 20,
      twilio_client = True, TWILIO_PHONE_NUMBER = ''+15550000000'',
      SMTP_HOST = ''smtp.example.org'', SMTP_PORT = 587, SMTP_USER = ''alerts'',
      SMTP_PASSWORD = ''secret'', ALERT_EMAILS = [''ops@example.org'']\<rparr>"

definition seen_frame0 :: "nat detector_state" where
  "seen_frame0 = (init_detector ())\<lparr>previous_frame := Some 0\<rparr>"

text \<open>
  An environment at clock time \<open>t\<close> in which the first emergency contact cannot be
  reached and every other operation succeeds.
\<close>

definition env_at :: "real \<Rightarrow> env" where
  "env_at t =
     \<lparr>now = t, isoformat_now = ''2026-01-01T00:00:00'', rnd_random = 0.9, rnd_unit = 0,
      rnd_randint = 0, geocode = None, insert_one_ok = True,
      messages_create_ok = (\<lambda>c. c \<noteq> ''+1234567890''), firestore_add_ok = True,
      smtp_ok = True\<rparr>"

text \<open>The globals right after start-up, with the in-memory list as the only store.\<close>

definition fresh_state :: "nat app_state" where
  "fresh_state =
     \<lparr>detector = seen_frame0, last_alert_time = init_last_alert_time, accidents_db = [],
      accidents_collection = None, db_firestore = None,
      current_location = (28.6139, 77.2090), trace = []\<rparr>"

text \<open>
  The same configuration without the vision libraries, so that the route answers with
  its demo branch, and the start-up state with an empty MongoDB collection as the
  primary store.
\<close>

definition demo_cfg :: "nat config" where
  "demo_cfg =
     yolo_cfg\<lparr>COMPUTER_VISION_AVAILABLE := False, YOLO_AVAILABLE := False, model := None\<rparr>"

definition mongo_state :: "nat app_state" where
  "mongo_state = fresh_state\<lparr>accidents_collection := Some []\<rparr>"

text \<open>A request with a frame and no threshold.\<close>

definition frame_request :: "nat \<Rightarrow> nat request option" where
  "frame_request f = Some \<lparr>image = Image f, threshold = No_threshold\<rparr>"



text \<open>The evidence handed to \<^verbatim>\<open>send_alert\<close> in the examples.\<close>

definition sample_data :: accident_data where
  "sample_data =
     \<lparr>location = Lat_Lng 28.6139 77.2090, coordinates = (28.6139, 77.2090),
      confidence = 1.12, vehicles_detected = 2\<rparr>"

subsection \<open>Observations\<close>

text \<open>The calls of \<^verbatim>\<open>messages.create\<close> recorded in a trace.\<close>

fun is_sms_attempt :: "event \<Rightarrow> bool" where
  "is_sms_attempt (Sms_attempt c ok) = True"
| "is_sms_attempt ev = False"

text \<open>The response says that an alert was sent: \<^verbatim>\<open>alert_sent\<close> is present and true.\<close>

fun dispatched :: "response \<Rightarrow> bool" where
  "dispatched (Result r) = (alert_sent r = Some True)"
| "dispatched (Error err) = False"

text \<open>
  \<^verbatim>\<open>send_alert\<close> ran between two states of the globals: each of its paths prints a
  line, so the trace has grown.
\<close>

definition alert_attempted :: "'f app_state \<Rightarrow> 'f app_state \<Rightarrow> bool" where
  "alert_attempted st st1 = (trace st1 \<noteq> trace st)"

text \<open>The response reports an accident: \<^verbatim>\<open>accident_detected\<close> is true.\<close>

fun accident_positive :: "response \<Rightarrow> bool" where
  "accident_positive (Result r) = r_accident_detected r"
| "accident_positive (Error err) = False"

section \<open>Properties\<close>

subsection \<open>The detector on one result per frame\<close>

text \<open>
  When the model returns one result for the frame and nothing raises, the call stores the
  frame, sets the flag to the value of the condition of line 329, and returns
  \<^verbatim>\<open>True\<close> exactly when the condition holds and the flag was not set.
\<close>

lemma detect_accident_single:
  assumes "frame_evidence cfg st frame = Some (s, n, bi)"
  shows "detect_accident cfg e st frame =
           ((raw_condition (accident_threshold st) s n \<and> \<not> accident_detected st, s, n, bi),
            st\<lparr>previous_frame := Some frame,
               accident_detected := raw_condition (accident_threshold st) s n\<rparr>)"
proof -
  from assms obtain m r where cv: "COMPUTER_VISION_AVAILABLE cfg" "YOLO_AVAILABLE cfg"
    and m: "model cfg = Some m" and r: "m frame = Some [r]"
    and ev: "scan_result (motion_score cfg) frame (previous_frame st) r (0, 0, []) = Some (s, n, bi)"
    by (auto simp: frame_evidence_def split: if_splits option.splits list.splits)
  show ?thesis
    using cv m r ev
    by (cases "accident_detected st"; cases "raw_condition (accident_threshold st) s n")
       (simp_all add: detect_accident_def Let_def)
qed

text \<open>With a previous frame and a motion score above 0.15, every vehicle box adds to the score.\<close>

lemma scan_boxes_motion:
  assumes "ms frame p = Some m" and "m > 0.15"
  shows "\<exists>bi'. scan_boxes ms frame (Some p) bs (s, n, bi) =
           Some (s + (\<Sum>b\<leftarrow>filter vehicle_box bs. conf b * m),
                 n + length (filter vehicle_box bs), bi')"
  using assms
proof (induction bs arbitrary: s n bi)
  case Nil
  then show ?case by simp
next
  case (Cons b bs)
  show ?case
  proof (cases "vehicle_box b")
    case True
    obtain bi1 where bi1: "bi1 = (case xyxy b of
                  Some (a1, b1, a2, b2) \<Rightarrow> bi @ [Box_info a1 b1 a2 b2 (cls b) (conf b)]
                | None \<Rightarrow> bi)" by simp
    from Cons.IH[OF Cons.prems, of "s + conf b * m" "n + 1" bi1]
    obtain bi' where "scan_boxes ms frame (Some p) bs (s + conf b * m, n + 1, bi1) =
        Some (s + conf b * m + (\<Sum>b\<leftarrow>filter vehicle_box bs. conf b * m),
              n + 1 + length (filter vehicle_box bs), bi')" by blast
    then show ?thesis using True Cons.prems bi1 by (simp add: Let_def add.assoc)
  next
    case False
    then show ?thesis using Cons.IH[OF Cons.prems, of s n bi] by simp
  qed
qed

lemmas example_defs =
  frame_evidence_def yolo_cfg_def seen_frame0_def init_detector_def scan_result_def
  vehicle_box_def car_def truck_def person_def raw_condition_def detect_accident_def env_at_def

text \<open>
  C1. On the model-backed path, for a frame with one result and no exception, where
  \<open>(s, n, bi)\<close> is the evidence line 329 reads: if the condition holds and the flag was
  false, the flag becomes true and the call returns \<^verbatim>\<open>is_accident = True\<close>; if the
  condition is false, the flag becomes false (and the call returns \<^verbatim>\<open>False\<close>); if the
  condition holds and the flag was already true, the call returns \<^verbatim>\<open>False\<close> and the flag
  stays true. For two consecutive such frames that both satisfy the condition, starting
  with the flag false, the first call returns \<^verbatim>\<open>True\<close> and the second \<^verbatim>\<open>False\<close>.
\<close>

theorem detect_accident_edge_triggered:
  "(frame_evidence cfg st frame = Some (s, n, bi) \<longrightarrow>
      (raw_condition (accident_threshold st) s n \<and> \<not> accident_detected st \<longrightarrow>
         accident_detected (snd (detect_accident cfg e st frame)) \<and>
         fst (detect_accident cfg e st frame) = (True, s, n, bi)) \<and>
      (\<not> raw_condition (accident_threshold st) s n \<longrightarrow>
         \<not> accident_detected (snd (detect_accident cfg e st frame)) \<and>
         fst (detect_accident cfg e st frame) = (False, s, n, bi)) \<and>
      (raw_condition (accident_threshold st) s n \<and> accident_detected st \<longrightarrow>
         accident_detected (snd (detect_accident cfg e st frame)) \<and>
         fst (detect_accident cfg e st frame) = (False, s, n, bi))) \<and>
   (frame_evidence cfg st frame = Some (s, n, bi) \<and>
    raw_condition (accident_threshold st) s n \<and> \<not> accident_detected st \<and>
    frame_evidence cfg (snd (detect_accident cfg e st frame)) frame' = Some (s', n', bi') \<and>
    raw_condition (accident_threshold (snd (detect_accident cfg e st frame))) s' n' \<longrightarrow>
      fst (fst (detect_accident cfg e st frame)) \<and>
      \<not> fst (fst (detect_accident cfg e' (snd (detect_accident cfg e st frame)) frame')))"
  by (auto simp: detect_accident_single)

theorem detect_accident_edge_triggered_witness:
  "frame_evidence yolo_cfg seen_frame0 1 = Some (1.12, 2, [Box_info 10 20 110 220 2 0.9]) \<and>
   raw_condition (accident_threshold seen_frame0) 1.12 2 \<and> \<not> accident_detected seen_frame0 \<and>
   frame_evidence yolo_cfg (snd (detect_accident yolo_cfg (env_at 0) seen_frame0 1)) 2
     = Some (1.12, 2, [Box_info 10 20 110 220 2 0.9]) \<and>
   fst (fst (detect_accident yolo_cfg (env_at 0) seen_frame0 1)) \<and>
   \<not> fst (fst (detect_accident yolo_cfg (env_at 1)
                 (snd (detect_accident yolo_cfg (env_at 0) seen_frame0 1)) 2))"
  using detect_accident_edge_triggered
          [of yolo_cfg seen_frame0 1 "1.12" 2 "[Box_info 10 20 110 220 2 0.9]" "env_at 0"
              2 "1.12" 2 "[Box_info 10 20 110 220 2 0.9]" "env_at 1"]
  by (simp add: example_defs)

text \<open>
  C2. On the model-backed path, when the model returns one result with the boxes \<open>bs\<close>,
  a previous frame exists and the motion score \<open>mo\<close> exceeds 0.15, the returned
  \<^verbatim>\<open>accident_score\<close> is the sum of \<open>conf b * mo\<close> over every box of \<open>bs\<close> with a vehicle
  class and confidence above 0.3, the returned count is the number of those boxes, and
  the returned decision and the new flag are computed from that full sum: the return of
  line 332 comes after the loop over the boxes has finished.
\<close>

theorem detect_accident_score_sums_every_vehicle:
  assumes "COMPUTER_VISION_AVAILABLE cfg" and "YOLO_AVAILABLE cfg"
    and "model cfg = Some m" and "m frame = Some [Some bs]"
    and "previous_frame st = Some p" and "motion_score cfg frame p = Some mo" and "mo > 0.15"
  shows "\<exists>bi. detect_accident cfg e st frame =
           ((raw_condition (accident_threshold st)
               (\<Sum>b\<leftarrow>filter vehicle_box bs. conf b * mo) (length (filter vehicle_box bs))
             \<and> \<not> accident_detected st,
             (\<Sum>b\<leftarrow>filter vehicle_box bs. conf b * mo),
             length (filter vehicle_box bs), bi),
            st\<lparr>previous_frame := Some frame,
               accident_detected :=
                 raw_condition (accident_threshold st)
                   (\<Sum>b\<leftarrow>filter vehicle_box bs. conf b * mo) (length (filter vehicle_box bs))\<rparr>)"
proof -
  from scan_boxes_motion[of "motion_score cfg" frame p mo bs 0 0 "[]"] assms(6,7)
  obtain bi where "scan_boxes (motion_score cfg) frame (Some p) bs (0, 0, []) =
      Some ((\<Sum>b\<leftarrow>filter vehicle_box bs. conf b * mo), length (filter vehicle_box bs), bi)"
    by auto
  then have "frame_evidence cfg st frame =
      Some ((\<Sum>b\<leftarrow>filter vehicle_box bs. conf b * mo), length (filter vehicle_box bs), bi)"
    using assms(1-5) by (simp add: frame_evidence_def scan_result_def)
  from detect_accident_single[OF this] show ?thesis by blast
qed

theorem detect_accident_score_sums_every_vehicle_witness:
  "COMPUTER_VISION_AVAILABLE yolo_cfg \<and> YOLO_AVAILABLE yolo_cfg \<and>
   the (model yolo_cfg) 1 = Some [Some [car, person, truck]] \<and>
   previous_frame seen_frame0 = Some 0 \<and> motion_score yolo_cfg 1 0 = Some 0.8 \<and>
   filter vehicle_box [car, person, truck] = [car, truck] \<and>
   fst (snd (fst (detect_accident yolo_cfg (env_at 0) seen_frame0 1)))
     = conf car * 0.8 + conf truck * 0.8"
  using detect_accident_score_sums_every_vehicle
          [of yolo_cfg "\<lambda>f. Some [Some [car, person, truck]]" 1 "[car, person, truck]"
              seen_frame0 0 "0.8" "env_at 0"]
  by (simp add: example_defs)

text \<open>
  C5, as stated, fails: after two consecutive frames that both satisfy the condition the
  flag is still true, although the condition held at the call before.
\<close>

theorem accident_flag_rising_edge_counterexample:
  "frame_evidence yolo_cfg seen_frame0 1 = Some (1.12, 2, [Box_info 10 20 110 220 2 0.9]) \<and>
   frame_evidence yolo_cfg (snd (detect_accident yolo_cfg (env_at 0) seen_frame0 1)) 2
     = Some (1.12, 2, [Box_info 10 20 110 220 2 0.9]) \<and>
   raw_condition (accident_threshold seen_frame0) 1.12 2 \<and>
   \<not> (accident_detected (snd (detect_accident yolo_cfg (env_at 1)
          (snd (detect_accident yolo_cfg (env_at 0) seen_frame0 1)) 2))
       \<longleftrightarrow> raw_condition (accident_threshold seen_frame0) 1.12 2 \<and>
           \<not> raw_condition (accident_threshold seen_frame0) 1.12 2)"
  by (simp add: example_defs)

text \<open>
  C5, amended. For two consecutive calls, each on a frame with one result and no
  exception: the flag after a call is true if and only if the condition of line 329
  held at that call; it is the returned \<^verbatim>\<open>is_accident\<close> of the second call that is true
  if and only if the condition held at the second call and did not hold at the first.
\<close>

theorem detect_accident_flag_follows_condition:
  "frame_evidence cfg st frame = Some (s, n, bi) \<and>
   frame_evidence cfg (snd (detect_accident cfg e st frame)) frame' = Some (s', n', bi') \<longrightarrow>
     accident_detected (snd (detect_accident cfg e st frame))
       = raw_condition (accident_threshold st) s n \<and>
     accident_detected (snd (detect_accident cfg e' (snd (detect_accident cfg e st frame)) frame'))
       = raw_condition (accident_threshold st) s' n' \<and>
     fst (fst (detect_accident cfg e' (snd (detect_accident cfg e st frame)) frame'))
       = (raw_condition (accident_threshold st) s' n' \<and>
          \<not> raw_condition (accident_threshold st) s n)"
  by (auto simp: detect_accident_single)

theorem detect_accident_flag_follows_condition_witness:
  "frame_evidence yolo_cfg seen_frame0 1 = Some (1.12, 2, [Box_info 10 20 110 220 2 0.9]) \<and>
   frame_evidence yolo_cfg (snd (detect_accident yolo_cfg (env_at 0) seen_frame0 1)) 1
     = Some (0, 2, [Box_info 10 20 110 220 2 0.9]) \<and>
   accident_detected (snd (detect_accident yolo_cfg (env_at 0) seen_frame0 1)) \<and>
   \<not> accident_detected (snd (detect_accident yolo_cfg (env_at 1)
        (snd (detect_accident yolo_cfg (env_at 0) seen_frame0 1)) 1)) \<and>
   \<not> fst (fst (detect_accident yolo_cfg (env_at 1)
        (snd (detect_accident yolo_cfg (env_at 0) seen_frame0 1)) 1))"
  using detect_accident_flag_follows_condition
          [of yolo_cfg seen_frame0 1 "1.12" 2 "[Box_info 10 20 110 220 2 0.9]" "env_at 0"
              1 0 2 "[Box_info 10 20 110 220 2 0.9]" "env_at 1"]
  by (simp add: example_defs)

subsection \<open>send_alert\<close>

text \<open>The loop over the contacts attempts every contact, in order.\<close>

lemma send_sms_attempts:
  "filter is_sms_attempt (send_sms e cs) = map (\<lambda>c. Sms_attempt c (messages_create_ok e c)) cs"
  by (induction cs) auto

lemma send_alert_last_alert_time:
  "last_alert_time (snd (send_alert cfg e st d)) = last_alert_time st"
  by (auto simp: send_alert_def Let_def split: option.splits)

lemma send_alert_detector:
  "detector (snd (send_alert cfg e st d)) = detector st"
  by (auto simp: send_alert_def Let_def split: option.splits)

text \<open>
  C4, as stated, fails: with MongoDB configured and \<^verbatim>\<open>insert_one\<close> raising, the call
  returns \<^verbatim>\<open>False\<close> after printing one line; no contact is attempted and no email is
  sent, although Twilio and SMTP are configured and the SMTP session would succeed.
\<close>

theorem send_alert_short_circuit_counterexample:
  "twilio_client yolo_cfg \<and>
   snd (send_email_alert yolo_cfg ((env_at 0)\<lparr>insert_one_ok := False\<rparr>)) = [Email_attempt True] \<and>
   send_alert yolo_cfg ((env_at 0)\<lparr>insert_one_ok := False\<rparr>)
       (fresh_state\<lparr>accidents_collection := Some []\<rparr>) sample_data
     = (False, fresh_state\<lparr>accidents_collection := Some [], trace := [Print_error_sending_alert]\<rparr>)"
  by (simp add: send_alert_def send_email_alert_def yolo_cfg_def env_at_def fresh_state_def)

text \<open>
  C4, amended. \<^verbatim>\<open>send_alert\<close> always returns a boolean and never raises. The value is
  \<^verbatim>\<open>True\<close> if and only if neither store write raised; failures of SMS and email are
  printed and do not change it. When the primary write raises, nothing else is
  attempted. When the primary write succeeds (or the in-memory list is the store), the
  record is appended to the primary store and, if Twilio is configured, every emergency
  contact is attempted whatever happens to the others; then, if the mirror write
  succeeds or no mirror is configured, the email function is called and the success
  line printed, and otherwise the email is skipped and the error line printed.
\<close>

theorem send_alert_best_effort:
  "fst (send_alert cfg e st d)
     = ((accidents_collection st = None \<or> insert_one_ok e) \<and>
        (db_firestore st = None \<or> firestore_add_ok e)) \<and>
   (accidents_collection st \<noteq> None \<and> \<not> insert_one_ok e \<longrightarrow>
      snd (send_alert cfg e st d) = st\<lparr>trace := trace st @ [Print_error_sending_alert]\<rparr>) \<and>
   (accidents_collection st = None \<or> insert_one_ok e \<longrightarrow>
      (case accidents_collection st of
         None \<Rightarrow> accidents_db (snd (send_alert cfg e st d))
                  = accidents_db st @
                      [\<lparr>location = location d, coordinates = coordinates d,
                        confidence = confidence d, vehicles_detected = vehicles_detected d,
                        timestamp = isoformat_now e, status = ''alert_sent''\<rparr>]
       | Some docs \<Rightarrow> accidents_collection (snd (send_alert cfg e st d))
                  = Some (docs @
                      [\<lparr>location = location d, coordinates = coordinates d,
                        confidence = confidence d, vehicles_detected = vehicles_detected d,
                        timestamp = isoformat_now e, status = ''alert_sent''\<rparr>])) \<and>
      filter is_sms_attempt (drop (length (trace st)) (trace (snd (send_alert cfg e st d))))
        = (if twilio_client cfg
           then map (\<lambda>c. Sms_attempt c (messages_create_ok e c)) emergency_contacts else []) \<and>
      trace (snd (send_alert cfg e st d))
        = trace st @ (if twilio_client cfg then send_sms e emergency_contacts else [])
            @ (if db_firestore st = None \<or> firestore_add_ok e
               then snd (send_email_alert cfg e) @ [Print_alert_sent]
               else [Print_error_sending_alert]))"
proof (intro conjI impI)
  show "fst (send_alert cfg e st d)
     = ((accidents_collection st = None \<or> insert_one_ok e) \<and>
        (db_firestore st = None \<or> firestore_add_ok e))"
    by (auto simp: send_alert_def Let_def split: option.splits)
next
  assume "accidents_collection st \<noteq> None \<and> \<not> insert_one_ok e"
  then show "snd (send_alert cfg e st d) = st\<lparr>trace := trace st @ [Print_error_sending_alert]\<rparr>"
    by (auto simp: send_alert_def Let_def split: option.splits)
next
  assume ok: "accidents_collection st = None \<or> insert_one_ok e"
  then show "(case accidents_collection st of
         None \<Rightarrow> accidents_db (snd (send_alert cfg e st d))
                  = accidents_db st @
                      [\<lparr>location = location d, coordinates = coordinates d,
                        confidence = confidence d, vehicles_detected = vehicles_detected d,
                        timestamp = isoformat_now e, status = ''alert_sent''\<rparr>]
       | Some docs \<Rightarrow> accidents_collection (snd (send_alert cfg e st d))
                  = Some (docs @
                      [\<lparr>location = location d, coordinates = coordinates d,
                        confidence = confidence d, vehicles_detected = vehicles_detected d,
                        timestamp = isoformat_now e, status = ''alert_sent''\<rparr>]))"
    by (auto simp: send_alert_def Let_def split: option.splits)
  from ok show tr: "trace (snd (send_alert cfg e st d))
        = trace st @ (if twilio_client cfg then send_sms e emergency_contacts else [])
            @ (if db_firestore st = None \<or> firestore_add_ok e
               then snd (send_email_alert cfg e) @ [Print_alert_sent]
               else [Print_error_sending_alert])"
    by (auto simp: send_alert_def Let_def split: option.splits)
  have em: "filter is_sms_attempt (snd (send_email_alert cfg e)) = []"
    by (simp add: send_email_alert_def)
  show "filter is_sms_attempt (drop (length (trace st)) (trace (snd (send_alert cfg e st d))))
        = (if twilio_client cfg
           then map (\<lambda>c. Sms_attempt c (messages_create_ok e c)) emergency_contacts else [])"
    by (simp add: tr send_sms_attempts em)
qed

theorem send_alert_best_effort_witness:
  "accidents_collection fresh_state = None \<and>
   send_alert yolo_cfg (env_at 0) fresh_state sample_data
     = (True,
        fresh_state
          \<lparr>accidents_db :=
             [\<lparr>location = Lat_Lng 28.6139 77.2090, coordinates = (28.6139, 77.2090),
               confidence = 1.12, vehicles_detected = 2,
               timestamp = ''2026-01-01T00:00:00'', status = ''alert_sent''\<rparr>],
           trace :=
             [Sms_attempt ''+1234567890'' False, Print_failed_to_send_SMS ''+1234567890'',
              Sms_attempt ''+0987654321'' True, Email_attempt True, Print_alert_sent]\<rparr>)"
  using send_alert_best_effort [of yolo_cfg "env_at 0" fresh_state sample_data]
  by (simp add: send_alert_def send_email_alert_def yolo_cfg_def env_at_def fresh_state_def
      sample_data_def emergency_contacts_def)

subsection \<open>The route /detect\<close>

text \<open>
  The detector never assigns its threshold; the alert block leaves the detector alone,
  reports an alert exactly when the evaluation is positive and the cooldown has passed,
  and assigns \<^verbatim>\<open>last_alert_time\<close> exactly then.
\<close>

lemma scan_results_threshold:
  "accident_threshold (snd (scan_results ms frame rs acc st)) = accident_threshold st"
proof (induction rs arbitrary: acc st)
  case Nil
  then show ?case by (cases acc) simp
next
  case (Cons r rs)
  show ?case
    by (simp add: Let_def Cons.IH split: option.splits prod.splits)
qed

lemma detect_accident_threshold:
  "accident_threshold (snd (detect_accident cfg e st frame)) = accident_threshold st"
  by (simp add: detect_accident_def Let_def scan_results_threshold split: option.splits)

lemma gate_and_dispatch_dispatched:
  "alert_sent r = None \<Longrightarrow>
   dispatched (fst (gate_and_dispatch cfg e st a c v r))
     = (a \<and> now e - last_alert_time st \<ge> real_of_int (ALERT_COOLDOWN_SECONDS cfg))"
  by (simp add: gate_and_dispatch_def gate_check_def gate_set_def Let_def)

lemma gate_and_dispatch_positive:
  "accident_positive (fst (gate_and_dispatch cfg e st a c v r)) = r_accident_detected r"
  by (simp add: gate_and_dispatch_def Let_def)

lemma gate_and_dispatch_last:
  "last_alert_time (snd (gate_and_dispatch cfg e st a c v r))
     = (if a \<and> now e - last_alert_time st \<ge> real_of_int (ALERT_COOLDOWN_SECONDS cfg)
        then now e else last_alert_time st)"
  by (simp add: gate_and_dispatch_def gate_check_def gate_set_def Let_def
      send_alert_last_alert_time)

lemma gate_and_dispatch_detector:
  "detector (snd (gate_and_dispatch cfg e st a c v r)) = detector st"
  by (simp add: gate_and_dispatch_def gate_check_def gate_set_def Let_def send_alert_detector)

lemma set_threshold_detector: "\<exists>d. set_threshold tf st = st\<lparr>detector := d\<rparr>"
proof -
  have same: "\<exists>d. st = st\<lparr>detector := d\<rparr>"
    by (rule exI[of _ "detector st"]) simp
  show ?thesis
  proof (cases tf)
    case No_threshold
    then show ?thesis using same by (simp add: set_threshold_def)
  next
    case (Threshold t)
    then show ?thesis by (auto simp: set_threshold_def)
  next
    case (Threshold_int n)
    then show ?thesis using same by (cases "py_float n") (auto simp: set_threshold_def)
  next
    case Bad_threshold
    then show ?thesis using same by (simp add: set_threshold_def)
  qed
qed

lemma set_threshold_value:
  "accident_threshold (detector (set_threshold tf st))
     = (case tf of
          Threshold t \<Rightarrow> max 0.1 (min 1.0 t)
        | Threshold_int n \<Rightarrow>
            (case py_float n of
               Some t \<Rightarrow> max 0.1 (min 1.0 t)
             | None \<Rightarrow> accident_threshold (detector st))
        | No_threshold \<Rightarrow> accident_threshold (detector st)
        | Bad_threshold \<Rightarrow> accident_threshold (detector st))"
  by (simp add: set_threshold_def split: threshold_field.splits option.splits)

text \<open>
  Every request either answers with an error, having touched the detector's threshold at
  most, or ends in the alert block, entered with globals that differ from those at the
  start in the detector only.
\<close>

lemma detect_route_shape:
  "(\<exists>err d. detect_route cfg e st body = (Error err, st\<lparr>detector := d\<rparr>)) \<or>
   (\<exists>d a c v r. detect_route cfg e st body = gate_and_dispatch cfg e (st\<lparr>detector := d\<rparr>) a c v r \<and>
      alert_sent r = None \<and> r_accident_detected r = a)"
proof (cases body)
  case None
  have "st = st\<lparr>detector := detector st\<rparr>" by simp
  then have "detect_route cfg e st body = (Error Exception_raised, st\<lparr>detector := detector st\<rparr>)"
    using None by (simp add: detect_route_def)
  then show ?thesis by blast
next
  case (Some data)
  obtain d1 where d1: "set_threshold (threshold data) st = st\<lparr>detector := d1\<rparr>"
    using set_threshold_detector by blast
  have gate: "\<And>d a c v r.
      detect_route cfg e st body = gate_and_dispatch cfg e (st\<lparr>detector := d\<rparr>) a c v r \<Longrightarrow>
      alert_sent r = None \<Longrightarrow> r_accident_detected r = a \<Longrightarrow> ?thesis"
    by blast
  show ?thesis
  proof (cases "image data")
    case No_image
    with Some d1 have "detect_route cfg e st body = (Error No_image_data_provided, st\<lparr>detector := d1\<rparr>)"
      by (simp add: detect_route_def)
    then show ?thesis by blast
  next
    case Undecodable
    show ?thesis
    proof (cases "\<not> COMPUTER_VISION_AVAILABLE cfg \<or> \<not> YOLO_AVAILABLE cfg")
      case True
      with Some d1 Undecodable have "detect_route cfg e st body =
        gate_and_dispatch cfg e (st\<lparr>detector := d1\<rparr>) (rnd_random e > 0.8)
          (uniform 0.1 0.95 (rnd_unit e)) (rnd_randint e)
          \<lparr>r_accident_detected = (rnd_random e > 0.8),
           r_confidence = uniform 0.1 0.95 (rnd_unit e),
           r_vehicles_detected = rnd_randint e, r_boxes = [],
           r_timestamp = isoformat_now e, demo_mode = Some True,
           alert_sent = None, alert_suppressed = None\<rparr>"
        by (auto simp: detect_route_def Let_def)
      from gate[OF this] show ?thesis by simp
    next
      case False
      with Some d1 Undecodable
      have "detect_route cfg e st body = (Error Exception_raised, st\<lparr>detector := d1\<rparr>)"
        by (simp add: detect_route_def)
      then show ?thesis by blast
    qed
  next
    case (Image frame)
    show ?thesis
    proof (cases "\<not> COMPUTER_VISION_AVAILABLE cfg \<or> \<not> YOLO_AVAILABLE cfg")
      case True
      with Some d1 Image have "detect_route cfg e st body =
        gate_and_dispatch cfg e (st\<lparr>detector := d1\<rparr>) (rnd_random e > 0.8)
          (uniform 0.1 0.95 (rnd_unit e)) (rnd_randint e)
          \<lparr>r_accident_detected = (rnd_random e > 0.8),
           r_confidence = uniform 0.1 0.95 (rnd_unit e),
           r_vehicles_detected = rnd_randint e, r_boxes = [],
           r_timestamp = isoformat_now e, demo_mode = Some True,
           alert_sent = None, alert_suppressed = None\<rparr>"
        by (auto simp: detect_route_def Let_def)
      from gate[OF this] show ?thesis by simp
    next
      case False
      obtain a c v bx d where da: "detect_accident cfg e d1 frame = ((a, c, v, bx), d)"
        by (metis prod_cases4 surj_pair)
      with Some d1 Image False have "detect_route cfg e st body =
        gate_and_dispatch cfg e (st\<lparr>detector := d\<rparr>) a c v
          \<lparr>r_accident_detected = a, r_confidence = c,
           r_vehicles_detected = v, r_boxes = bx,
           r_timestamp = isoformat_now e, demo_mode = None,
           alert_sent = None, alert_suppressed = None\<rparr>"
        by (simp add: detect_route_def Let_def)
      from gate[OF this] show ?thesis by simp
    qed
  qed
qed

lemma detect_route_dispatched:
  "dispatched (fst (detect_route cfg e st body))
     = (accident_positive (fst (detect_route cfg e st body)) \<and>
        now e - last_alert_time st \<ge> real_of_int (ALERT_COOLDOWN_SECONDS cfg))"
  using detect_route_shape[of cfg e st body]
  by (auto simp: gate_and_dispatch_dispatched gate_and_dispatch_positive)

lemma detect_route_last:
  "last_alert_time (snd (detect_route cfg e st body))
     = (if dispatched (fst (detect_route cfg e st body)) then now e else last_alert_time st)"
  using detect_route_shape[of cfg e st body]
  by (auto simp: gate_and_dispatch_dispatched gate_and_dispatch_last)

lemma detect_route_threshold:
  "accident_threshold (detector (snd (detect_route cfg e st (Some data))))
     = (case threshold data of
          Threshold t \<Rightarrow> max 0.1 (min 1.0 t)
        | Threshold_int n \<Rightarrow>
            (case py_float n of
               Some t \<Rightarrow> max 0.1 (min 1.0 t)
             | None \<Rightarrow> accident_threshold (detector st))
        | No_threshold \<Rightarrow> accident_threshold (detector st)
        | Bad_threshold \<Rightarrow> accident_threshold (detector st))"
proof -
  have d: "\<And>frame s out x. detect_accident cfg e s frame = (out, x) \<Longrightarrow>
      accident_threshold x = accident_threshold s"
    using detect_accident_threshold[of cfg e] by (metis snd_conv)
  have "accident_threshold (detector (snd (detect_route cfg e st (Some data))))
      = accident_threshold (detector (set_threshold (threshold data) st))"
    by (auto simp: detect_route_def Let_def gate_and_dispatch_detector
      split: image_field.splits prod.splits dest!: d)
  then show ?thesis by (simp only: set_threshold_value)
qed

text \<open>
  \<^verbatim>\<open>send_alert\<close> prints on each of its paths, and the alert block calls it exactly when it
  reports \<^verbatim>\<open>alert_sent = True\<close>: a request that does not report it leaves the trace and
  the three stores as they were.
\<close>

lemma send_alert_trace_grows: "trace (snd (send_alert cfg e st d)) \<noteq> trace st"
  by (auto simp: send_alert_def Let_def split: option.splits)

lemma gate_and_dispatch_state:
  "\<not> (a \<and> now e - last_alert_time st \<ge> real_of_int (ALERT_COOLDOWN_SECONDS cfg)) \<Longrightarrow>
   snd (gate_and_dispatch cfg e st a c v r) = st"
  by (auto simp: gate_and_dispatch_def gate_check_def Let_def)

lemma gate_and_dispatch_trace:
  assumes "trace s = trace st"
  shows "(trace (snd (gate_and_dispatch cfg e s a c v r)) = trace st)
     = (\<not> (a \<and> now e - last_alert_time s \<ge> real_of_int (ALERT_COOLDOWN_SECONDS cfg)))"
proof -
  have "\<And>d. trace (snd (send_alert cfg e (gate_set s (now e)) d)) \<noteq> trace st"
    using send_alert_trace_grows[of cfg e "gate_set s (now e)"] assms by (simp add: gate_set_def)
  then show ?thesis
    using assms by (auto simp: gate_and_dispatch_def gate_check_def Let_def)
qed

lemma detect_route_attempted:
  "alert_attempted st (snd (detect_route cfg e st body))
     = dispatched (fst (detect_route cfg e st body))"
  using detect_route_shape[of cfg e st body]
  unfolding alert_attempted_def
  by (auto simp: gate_and_dispatch_dispatched gate_and_dispatch_trace)

lemma detect_route_quiet:
  assumes "\<not> dispatched (fst (detect_route cfg e st body))"
  shows "trace (snd (detect_route cfg e st body)) = trace st"
    and "accidents_db (snd (detect_route cfg e st body)) = accidents_db st"
    and "accidents_collection (snd (detect_route cfg e st body)) = accidents_collection st"
    and "db_firestore (snd (detect_route cfg e st body)) = db_firestore st"
  using assms detect_route_shape[of cfg e st body]
  by (auto simp: gate_and_dispatch_dispatched gate_and_dispatch_state)

text \<open>
  Over requests handled one after the other, an alert is sent only when the clock is at
  least the cooldown past \<^verbatim>\<open>last_alert_time\<close>, so two alerts are at least the cooldown
  apart.
\<close>

lemma run_requests_Cons:
  "fst (run_requests cfg st ((e, body) # rest))
     = fst (detect_route cfg e st body)
       # fst (run_requests cfg (snd (detect_route cfg e st body)) rest)"
  by (simp split: prod.splits)

lemma run_requests_after_last:
  assumes "0 \<le> ALERT_COOLDOWN_SECONDS cfg"
    and "j < length reqs"
    and "dispatched (fst (run_requests cfg st reqs) ! j)"
  shows "now (fst (reqs ! j)) - last_alert_time st \<ge> real_of_int (ALERT_COOLDOWN_SECONDS cfg)"
  using assms(2,3)
proof (induction reqs arbitrary: st j)
  case Nil
  then show ?case by simp
next
  case (Cons q reqs)
  obtain e body where q: "q = (e, body)" by (cases q)
  let ?st1 = "snd (detect_route cfg e st body)"
  show ?case
  proof (cases j)
    case 0
    with Cons.prems q show ?thesis
      by (simp add: run_requests_Cons detect_route_dispatched del: run_requests.simps)
  next
    case (Suc k)
    with Cons.prems q have k: "k < length reqs"
      and d: "dispatched (fst (run_requests cfg ?st1 reqs) ! k)"
      by (simp_all add: run_requests_Cons del: run_requests.simps)
    from Cons.IH[OF k d]
    have "now (fst (reqs ! k)) - last_alert_time ?st1 \<ge> real_of_int (ALERT_COOLDOWN_SECONDS cfg)" .
    moreover have "last_alert_time st \<le> last_alert_time ?st1"
      using assms(1) by (auto simp: detect_route_last detect_route_dispatched)
    ultimately show ?thesis using Suc q by simp
  qed
qed

lemma run_requests_spacing:
  assumes "0 \<le> ALERT_COOLDOWN_SECONDS cfg"
    and "i < j" and "j < length reqs"
    and "dispatched (fst (run_requests cfg st reqs) ! i)"
    and "dispatched (fst (run_requests cfg st reqs) ! j)"
  shows "now (fst (reqs ! j)) - now (fst (reqs ! i)) \<ge> real_of_int (ALERT_COOLDOWN_SECONDS cfg)"
  using assms(2-5)
proof (induction reqs arbitrary: st i j)
  case Nil
  then show ?case by simp
next
  case (Cons q reqs)
  obtain e body where q: "q = (e, body)" by (cases q)
  let ?st1 = "snd (detect_route cfg e st body)"
  from Cons.prems(1) obtain k where j: "j = Suc k" by (cases j) auto
  with Cons.prems q have k: "k < length reqs"
    and dk: "dispatched (fst (run_requests cfg ?st1 reqs) ! k)"
    by (simp_all add: run_requests_Cons del: run_requests.simps)
  show ?case
  proof (cases i)
    case 0
    with Cons.prems q have "dispatched (fst (detect_route cfg e st body))"
      by (simp add: run_requests_Cons del: run_requests.simps)
    then have "last_alert_time ?st1 = now e" by (simp add: detect_route_last)
    with run_requests_after_last[OF assms(1) k dk] show ?thesis using 0 j q by simp
  next
    case (Suc i')
    with Cons.prems q j have "i' < k"
      and "dispatched (fst (run_requests cfg ?st1 reqs) ! i')"
      by (simp_all add: run_requests_Cons del: run_requests.simps)
    from Cons.IH[OF this(1) k this(2) dk] show ?thesis using Suc j by simp
  qed
qed

text \<open>The request at position \<open>j\<close> of a sequence runs on the globals its predecessor left.\<close>

lemma run_requests_nth:
  "j < length reqs \<Longrightarrow>
   fst (run_requests cfg st reqs) ! j
     = fst (detect_route cfg (fst (reqs ! j)) ((st # states_after cfg st reqs) ! j)
             (snd (reqs ! j)))"
proof (induction reqs arbitrary: st j)
  case Nil
  then show ?case by simp
next
  case (Cons q reqs)
  obtain e body where q: "q = (e, body)" by (cases q)
  show ?case
  proof (cases j)
    case 0
    then show ?thesis using q by (simp add: run_requests_Cons del: run_requests.simps)
  next
    case (Suc k)
    with Cons.prems have "k < length reqs" by simp
    from Cons.IH[OF this, of "snd (detect_route cfg e st body)"] show ?thesis
      using Suc q by (simp add: run_requests_Cons del: run_requests.simps)
  qed
qed

lemma states_after_nth:
  "j < length reqs \<Longrightarrow>
   states_after cfg st reqs ! j
     = snd (detect_route cfg (fst (reqs ! j)) ((st # states_after cfg st reqs) ! j)
             (snd (reqs ! j)))"
proof (induction reqs arbitrary: st j)
  case Nil
  then show ?case by simp
next
  case (Cons q reqs)
  obtain e body where q: "q = (e, body)" by (cases q)
  show ?case
  proof (cases j)
    case 0
    then show ?thesis using q by simp
  next
    case (Suc k)
    with Cons.prems have "k < length reqs" by simp
    from Cons.IH[OF this, of "snd (detect_route cfg e st body)"] show ?thesis
      using Suc q by simp
  qed
qed

lemma run_requests_attempted:
  "j < length reqs \<Longrightarrow>
   alert_attempted ((st # states_after cfg st reqs) ! j) (states_after cfg st reqs ! j)
     = dispatched (fst (run_requests cfg st reqs) ! j)"
  by (simp add: run_requests_nth states_after_nth[of j reqs cfg st] detect_route_attempted)

lemma run_requests_quiet:
  assumes "j < length reqs" and "\<not> dispatched (fst (run_requests cfg st reqs) ! j)"
  shows "trace (states_after cfg st reqs ! j) = trace ((st # states_after cfg st reqs) ! j)"
    and "accidents_db (states_after cfg st reqs ! j)
           = accidents_db ((st # states_after cfg st reqs) ! j)"
    and "accidents_collection (states_after cfg st reqs ! j)
           = accidents_collection ((st # states_after cfg st reqs) ! j)"
    and "db_firestore (states_after cfg st reqs ! j)
           = db_firestore ((st # states_after cfg st reqs) ! j)"
  using assms
  by (simp_all add: run_requests_nth states_after_nth[of j reqs cfg st] detect_route_quiet)

text \<open>An integer of 401 digits is beyond the doubles.\<close>

lemma py_float_huge: "py_float (10 ^ 400) = None"
  by (simp add: py_float_def)

lemmas route_defs =
  Let_def detect_route_def set_threshold_def gate_and_dispatch_def gate_check_def gate_set_def
  send_alert_def send_email_alert_def
  get_location_info_def emergency_contacts_def uniform_def
  demo_cfg_def mongo_state_def fresh_state_def frame_request_def init_last_alert_time_def
  frame_evidence_def yolo_cfg_def seen_frame0_def init_detector_def scan_result_def
  vehicle_box_def car_def truck_def person_def raw_condition_def detect_accident_def env_at_def

text \<open>
  C8, as stated, fails. A JSON integer is numeric whatever its size; for \<open>10 ^ 400\<close>
  \<^verbatim>\<open>float\<close> raises \<^verbatim>\<open>OverflowError\<close>, the handler of lines 500-501 swallows it, and the
  threshold stays 0.5 where the clamp of the override is 1.0.
\<close>

theorem threshold_override_overflow_counterexample:
  "py_float (10 ^ 400) = None \<and>
   accident_threshold (detector fresh_state) = 0.5 \<and>
   accident_threshold (detector (snd (detect_route yolo_cfg (env_at 1000) fresh_state
       (Some \<lparr>image = Image 1, threshold = Threshold_int (10 ^ 400)\<rparr>)))) = 0.5 \<and>
   max 0.1 (min 1.0 (real_of_int (10 ^ 400))) = 1.0"
proof -
  have h: "py_float (10 ^ 400) = None" by (rule py_float_huge)
  have "accident_threshold (detector (snd (detect_route yolo_cfg (env_at 1000) fresh_state
       (Some \<lparr>image = Image 1, threshold = Threshold_int (10 ^ 400)\<rparr>))))
     = accident_threshold (detector fresh_state)"
    by (simp only: detect_route_threshold request.select_convs threshold_field.simps h
        option.simps)
  moreover have "accident_threshold (detector fresh_state) = 0.5"
    by (simp add: fresh_state_def seen_frame0_def init_detector_def)
  moreover have "max 0.1 (min 1.0 (real_of_int (10 ^ 400))) = (1.0::real)" by simp
  ultimately show ?thesis using h by simp
qed

text \<open>
  C8, amended. For every override that \<^verbatim>\<open>float\<close> converts (a JSON float, or a JSON
  integer below \<open>2 ^ 1024 - 2 ^ 970\<close> in magnitude), the detector's threshold after the
  call is the override clamped to the interval from 0.1 to 1.0, whatever else the request
  holds and whichever branch answers it: -5 gives 0.1, 50 gives 1.0, and a value inside the
  interval is stored unchanged. For an integer from that bound on, as for a missing
  threshold and for one that is no number, the threshold keeps the value it had.
\<close>

theorem detect_route_threshold_override:
  "(threshold data = Threshold t \<longrightarrow>
     accident_threshold (detector (snd (detect_route cfg e st (Some data)))) = max 0.1 (min 1.0 t) \<and>
     0.1 \<le> accident_threshold (detector (snd (detect_route cfg e st (Some data)))) \<and>
     accident_threshold (detector (snd (detect_route cfg e st (Some data)))) \<le> 1.0 \<and>
     (0.1 \<le> t \<and> t \<le> 1.0 \<longrightarrow>
        accident_threshold (detector (snd (detect_route cfg e st (Some data)))) = t) \<and>
     (t = - 5 \<longrightarrow> accident_threshold (detector (snd (detect_route cfg e st (Some data)))) = 0.1) \<and>
     (t = 50 \<longrightarrow> accident_threshold (detector (snd (detect_route cfg e st (Some data)))) = 1.0)) \<and>
   (threshold data = Threshold_int n \<and> \<bar>n\<bar> < 2 ^ 1024 - 2 ^ 970 \<longrightarrow>
     accident_threshold (detector (snd (detect_route cfg e st (Some data))))
       = max 0.1 (min 1.0 (real_of_int n)) \<and>
     0.1 \<le> accident_threshold (detector (snd (detect_route cfg e st (Some data)))) \<and>
     accident_threshold (detector (snd (detect_route cfg e st (Some data)))) \<le> 1.0 \<and>
     (n = - 5 \<longrightarrow> accident_threshold (detector (snd (detect_route cfg e st (Some data)))) = 0.1) \<and>
     (n = 50 \<longrightarrow> accident_threshold (detector (snd (detect_route cfg e st (Some data)))) = 1.0) \<and>
     (n = 1 \<longrightarrow> accident_threshold (detector (snd (detect_route cfg e st (Some data)))) = 1.0)) \<and>
   (threshold data = Threshold_int n \<and> \<not> \<bar>n\<bar> < 2 ^ 1024 - 2 ^ 970 \<longrightarrow>
     accident_threshold (detector (snd (detect_route cfg e st (Some data))))
       = accident_threshold (detector st)) \<and>
   (threshold data = No_threshold \<or> threshold data = Bad_threshold \<longrightarrow>
     accident_threshold (detector (snd (detect_route cfg e st (Some data))))
       = accident_threshold (detector st))"
proof (intro conjI impI)
  assume "threshold data = Threshold_int n \<and> \<not> \<bar>n\<bar> < 2 ^ 1024 - 2 ^ 970"
  then show "accident_threshold (detector (snd (detect_route cfg e st (Some data))))
       = accident_threshold (detector st)"
    by (simp add: detect_route_threshold py_float_def)
next
  assume "threshold data = No_threshold \<or> threshold data = Bad_threshold"
  then show "accident_threshold (detector (snd (detect_route cfg e st (Some data))))
       = accident_threshold (detector st)"
    by (auto simp: detect_route_threshold)
qed (auto simp: detect_route_threshold py_float_def)

theorem detect_route_threshold_override_witness:
  "threshold \<lparr>image = Image 1, threshold = Threshold_int (- 5)\<rparr> = Threshold_int (- 5) \<and>
   \<bar>- 5 :: int\<bar> < 2 ^ 1024 - 2 ^ 970 \<and>
   accident_threshold (detector (snd (detect_route yolo_cfg (env_at 1000) fresh_state
       (Some \<lparr>image = Image 1, threshold = Threshold_int (- 5)\<rparr>)))) = 0.1"
  using detect_route_threshold_override
          [of "\<lparr>image = Image 1, threshold = Threshold_int (- 5)\<rparr>" 0 yolo_cfg "env_at 1000"
              fresh_state "- 5"]
  by simp

text \<open>
  C3, as stated, fails in its first-check clause. \<^verbatim>\<open>last_alert_time\<close> starts at 0, a
  clock value, so the first check is an ordinary check against 0: with the default
  cooldown of 20, requests at clock 0, 10 and 21 are answered suppressed, suppressed,
  sent; and with a cooldown of 2000000000 the first request at clock 1700000000 is
  suppressed.
\<close>

theorem first_gate_check_counterexample:
  "last_alert_time fresh_state = init_last_alert_time \<and>
   accident_positive (fst (detect_route demo_cfg (env_at 0) fresh_state (frame_request 1))) \<and>
   \<not> dispatched (fst (detect_route demo_cfg (env_at 0) fresh_state (frame_request 1))) \<and>
   map dispatched (fst (run_requests demo_cfg fresh_state
       [(env_at 0, frame_request 1), (env_at 10, frame_request 2),
        (env_at 21, frame_request 3)])) = [False, False, True] \<and>
   accident_positive (fst (detect_route (demo_cfg\<lparr>ALERT_COOLDOWN_SECONDS := 2000000000\<rparr>)
       (env_at 1700000000) fresh_state (frame_request 1))) \<and>
   \<not> dispatched (fst (detect_route (demo_cfg\<lparr>ALERT_COOLDOWN_SECONDS := 2000000000\<rparr>)
       (env_at 1700000000) fresh_state (frame_request 1)))"
  by (simp add: route_defs)

text \<open>
  C3, amended. The gate of lines 561-563 is a time policy. For an evaluation that reports an
  accident, the alert is sent if and only if \<open>now - last_alert_time\<close> is at least
  \<^verbatim>\<open>ALERT_COOLDOWN_SECONDS\<close>, whose default is 20; \<^verbatim>\<open>last_alert_time\<close> becomes \<open>now\<close> when
  the alert is sent and keeps its value otherwise; \<^verbatim>\<open>send_alert\<close> runs exactly when the
  response says \<^verbatim>\<open>alert_sent = True\<close>, and otherwise the trace and the stores are
  untouched; from the initial value of \<^verbatim>\<open>last_alert_time\<close>, which is 0, the first check
  passes if and only if the clock reading is at least the cooldown; of two requests
  handled one after the other at times less than the cooldown apart, at most one sends
  an alert; and the same holds of any two requests of a sequence of requests handled one
  after the other, whatever lies between them.
\<close>

theorem alert_gate_policy:
  "(accident_positive (fst (detect_route cfg e st body)) \<longrightarrow>
      dispatched (fst (detect_route cfg e st body))
        = (now e - last_alert_time st \<ge> real_of_int (ALERT_COOLDOWN_SECONDS cfg))) \<and>
   (dispatched (fst (detect_route cfg e st body)) \<longrightarrow>
      last_alert_time (snd (detect_route cfg e st body)) = now e) \<and>
   (\<not> dispatched (fst (detect_route cfg e st body)) \<longrightarrow>
      last_alert_time (snd (detect_route cfg e st body)) = last_alert_time st \<and>
      trace (snd (detect_route cfg e st body)) = trace st \<and>
      accidents_db (snd (detect_route cfg e st body)) = accidents_db st \<and>
      accidents_collection (snd (detect_route cfg e st body)) = accidents_collection st \<and>
      db_firestore (snd (detect_route cfg e st body)) = db_firestore st) \<and>
   alert_attempted st (snd (detect_route cfg e st body))
     = dispatched (fst (detect_route cfg e st body)) \<and>
   (last_alert_time st = init_last_alert_time \<and>
    accident_positive (fst (detect_route cfg e st body)) \<longrightarrow>
      dispatched (fst (detect_route cfg e st body))
        = (real_of_int (ALERT_COOLDOWN_SECONDS cfg) \<le> now e)) \<and>
   (now e < now e' \<and> now e' - now e < real_of_int (ALERT_COOLDOWN_SECONDS cfg) \<longrightarrow>
      \<not> (dispatched (fst (detect_route cfg e st body)) \<and>
         dispatched (fst (detect_route cfg e' (snd (detect_route cfg e st body)) body'))) \<and>
      \<not> (alert_attempted st (snd (detect_route cfg e st body)) \<and>
         alert_attempted (snd (detect_route cfg e st body))
           (snd (detect_route cfg e' (snd (detect_route cfg e st body)) body')))) \<and>
   (i < j \<and> j < length reqs \<and> now (fst (reqs ! i)) < now (fst (reqs ! j)) \<and>
    now (fst (reqs ! j)) - now (fst (reqs ! i)) < real_of_int (ALERT_COOLDOWN_SECONDS cfg) \<longrightarrow>
      \<not> (dispatched (fst (run_requests cfg st reqs) ! i) \<and>
         dispatched (fst (run_requests cfg st reqs) ! j)) \<and>
      \<not> (alert_attempted ((st # states_after cfg st reqs) ! i) (states_after cfg st reqs ! i) \<and>
         alert_attempted ((st # states_after cfg st reqs) ! j) (states_after cfg st reqs ! j))) \<and>
   load_cooldown Unset = 20"
proof -
  let ?R = "detect_route cfg e st body"
  let ?R' = "detect_route cfg e' (snd ?R) body'"
  have a: "dispatched (fst ?R)
     = (accident_positive (fst ?R) \<and>
        now e - last_alert_time st \<ge> real_of_int (ALERT_COOLDOWN_SECONDS cfg))"
    by (rule detect_route_dispatched)
  have b: "last_alert_time (snd ?R) = (if dispatched (fst ?R) then now e else last_alert_time st)"
    by (rule detect_route_last)
  have c: "dispatched (fst ?R') \<longrightarrow>
      now e' - last_alert_time (snd ?R) \<ge> real_of_int (ALERT_COOLDOWN_SECONDS cfg)"
    by (simp add: detect_route_dispatched)
  have p1: "accident_positive (fst ?R) \<longrightarrow>
      dispatched (fst ?R) = (now e - last_alert_time st \<ge> real_of_int (ALERT_COOLDOWN_SECONDS cfg))"
    using a by simp
  have p2: "dispatched (fst ?R) \<longrightarrow> last_alert_time (snd ?R) = now e"
    using b by simp
  have p3: "\<not> dispatched (fst ?R) \<longrightarrow>
      last_alert_time (snd ?R) = last_alert_time st \<and>
      trace (snd ?R) = trace st \<and>
      accidents_db (snd ?R) = accidents_db st \<and>
      accidents_collection (snd ?R) = accidents_collection st \<and>
      db_firestore (snd ?R) = db_firestore st"
    using b by (simp add: detect_route_quiet)
  have p4: "alert_attempted st (snd ?R) = dispatched (fst ?R)"
    by (rule detect_route_attempted)
  have p5: "last_alert_time st = init_last_alert_time \<and> accident_positive (fst ?R) \<longrightarrow>
      dispatched (fst ?R) = (real_of_int (ALERT_COOLDOWN_SECONDS cfg) \<le> now e)"
    using a by (simp add: init_last_alert_time_def)
  have q: "now e < now e' \<and> now e' - now e < real_of_int (ALERT_COOLDOWN_SECONDS cfg) \<longrightarrow>
      \<not> (dispatched (fst ?R) \<and> dispatched (fst ?R'))"
    using b c by auto
  have p6: "now e < now e' \<and> now e' - now e < real_of_int (ALERT_COOLDOWN_SECONDS cfg) \<longrightarrow>
      \<not> (dispatched (fst ?R) \<and> dispatched (fst ?R')) \<and>
      \<not> (alert_attempted st (snd ?R) \<and> alert_attempted (snd ?R) (snd ?R'))"
    using q by (simp add: detect_route_attempted)
  have r: "i < j \<and> j < length reqs \<and> now (fst (reqs ! i)) < now (fst (reqs ! j)) \<and>
    now (fst (reqs ! j)) - now (fst (reqs ! i)) < real_of_int (ALERT_COOLDOWN_SECONDS cfg) \<longrightarrow>
      \<not> (dispatched (fst (run_requests cfg st reqs) ! i) \<and>
         dispatched (fst (run_requests cfg st reqs) ! j))"
  proof (cases "0 \<le> ALERT_COOLDOWN_SECONDS cfg")
    case True
    show ?thesis
      using run_requests_spacing[OF True, of i j reqs st] by auto
  next
    case False
    then have "real_of_int (ALERT_COOLDOWN_SECONDS cfg) < 0" by simp
    then show ?thesis by auto
  qed
  have p7: "i < j \<and> j < length reqs \<and> now (fst (reqs ! i)) < now (fst (reqs ! j)) \<and>
    now (fst (reqs ! j)) - now (fst (reqs ! i)) < real_of_int (ALERT_COOLDOWN_SECONDS cfg) \<longrightarrow>
      \<not> (dispatched (fst (run_requests cfg st reqs) ! i) \<and>
         dispatched (fst (run_requests cfg st reqs) ! j)) \<and>
      \<not> (alert_attempted ((st # states_after cfg st reqs) ! i) (states_after cfg st reqs ! i) \<and>
         alert_attempted ((st # states_after cfg st reqs) ! j) (states_after cfg st reqs ! j))"
  proof (intro impI)
    assume h: "i < j \<and> j < length reqs \<and> now (fst (reqs ! i)) < now (fst (reqs ! j)) \<and>
      now (fst (reqs ! j)) - now (fst (reqs ! i)) < real_of_int (ALERT_COOLDOWN_SECONDS cfg)"
    then have ij: "i < length reqs" "j < length reqs" by simp_all
    show "\<not> (dispatched (fst (run_requests cfg st reqs) ! i) \<and>
         dispatched (fst (run_requests cfg st reqs) ! j)) \<and>
      \<not> (alert_attempted ((st # states_after cfg st reqs) ! i) (states_after cfg st reqs ! i) \<and>
         alert_attempted ((st # states_after cfg st reqs) ! j) (states_after cfg st reqs ! j))"
      using r h by (simp only: run_requests_attempted[OF ij(1)] run_requests_attempted[OF ij(2)])
        blast
  qed
  have p8: "load_cooldown Unset = 20" by simp
  from p1 p2 p3 p4 p5 p6 p7 p8 show ?thesis by blast
qed

theorem alert_gate_policy_witness:
  "accident_positive (fst (detect_route demo_cfg (env_at 1000) fresh_state (frame_request 1))) \<and>
   last_alert_time fresh_state = init_last_alert_time \<and>
   real_of_int (ALERT_COOLDOWN_SECONDS demo_cfg) \<le> now (env_at 1000) \<and>
   now (env_at 1000) < now (env_at 1010) \<and>
   now (env_at 1010) - now (env_at 1000) < real_of_int (ALERT_COOLDOWN_SECONDS demo_cfg) \<and>
   dispatched (fst (detect_route demo_cfg (env_at 1000) fresh_state (frame_request 1))) \<and>
   last_alert_time (snd (detect_route demo_cfg (env_at 1000) fresh_state (frame_request 1))) = 1000 \<and>
   accident_positive (fst (detect_route demo_cfg (env_at 1010)
       (snd (detect_route demo_cfg (env_at 1000) fresh_state (frame_request 1))) (frame_request 2))) \<and>
   \<not> dispatched (fst (detect_route demo_cfg (env_at 1010)
       (snd (detect_route demo_cfg (env_at 1000) fresh_state (frame_request 1))) (frame_request 2))) \<and>
   map dispatched (fst (run_requests demo_cfg fresh_state
       [(env_at 1000, frame_request 1), (env_at 1010, frame_request 2),
        (env_at 1021, frame_request 3)])) = [True, False, True] \<and>
   map (\<lambda>s. length (trace s)) (states_after demo_cfg fresh_state
       [(env_at 1000, frame_request 1), (env_at 1010, frame_request 2),
        (env_at 1021, frame_request 3)])  = [5, 5, 10]"
  using alert_gate_policy
          [where cfg = demo_cfg and e = "env_at 1000" and st = fresh_state
             and body = "frame_request 1" and e' = "env_at 1010" and body' = "frame_request 2"
             and i = 0 and j = 1
             and reqs = "[(env_at 1000, frame_request 1), (env_at 1010, frame_request 2),
                          (env_at 1021, frame_request 3)]"]
  by (simp add: route_defs)

text \<open>
  C10. When an evaluation reports an accident and the cooldown has passed, the response
  says \<^verbatim>\<open>alert_sent = True\<close> and \<^verbatim>\<open>last_alert_time\<close> becomes \<open>now\<close>, whatever
  \<^verbatim>\<open>send_alert\<close> returns: the alert block keeps the state \<^verbatim>\<open>send_alert\<close> leaves and drops
  its value. In a sequence of requests handled one after the other, every later request
  within \<^verbatim>\<open>ALERT_COOLDOWN_SECONDS\<close> of that one is then denied: its response does not say
  \<^verbatim>\<open>alert_sent = True\<close>, \<^verbatim>\<open>send_alert\<close> is not called, and the trace and the three stores
  stay as they were, also when the dispatch had failed.
\<close>

theorem failed_dispatch_consumes_cooldown:
  "(accident_positive (fst (detect_route cfg e st body)) \<and>
    now e - last_alert_time st \<ge> real_of_int (ALERT_COOLDOWN_SECONDS cfg) \<longrightarrow>
      dispatched (fst (detect_route cfg e st body)) \<and>
      alert_attempted st (snd (detect_route cfg e st body)) \<and>
      last_alert_time (snd (detect_route cfg e st body)) = now e) \<and>
   (now e - last_alert_time st \<ge> real_of_int (ALERT_COOLDOWN_SECONDS cfg) \<longrightarrow>
      gate_and_dispatch cfg e st True c v r
        = (Result (r\<lparr>alert_sent := Some True, alert_suppressed := Some False\<rparr>),
           snd (send_alert cfg e (gate_set st (now e))
                  \<lparr>location = get_location_info cfg e (fst (current_location st))
                                (snd (current_location st)),
                   coordinates = current_location st,
                   confidence = c, vehicles_detected = v\<rparr>)) \<and>
      last_alert_time (snd (gate_and_dispatch cfg e st True c v r)) = now e) \<and>
   (i < j \<and> j < length reqs \<and>
    accident_positive (fst (run_requests cfg st reqs) ! i) \<and>
    now (fst (reqs ! i)) - last_alert_time ((st # states_after cfg st reqs) ! i)
      \<ge> real_of_int (ALERT_COOLDOWN_SECONDS cfg) \<and>
    now (fst (reqs ! i)) \<le> now (fst (reqs ! j)) \<and>
    now (fst (reqs ! j)) - now (fst (reqs ! i)) < real_of_int (ALERT_COOLDOWN_SECONDS cfg) \<longrightarrow>
      dispatched (fst (run_requests cfg st reqs) ! i) \<and>
      last_alert_time (states_after cfg st reqs ! i) = now (fst (reqs ! i)) \<and>
      \<not> dispatched (fst (run_requests cfg st reqs) ! j) \<and>
      \<not> alert_attempted ((st # states_after cfg st reqs) ! j) (states_after cfg st reqs ! j) \<and>
      trace (states_after cfg st reqs ! j) = trace ((st # states_after cfg st reqs) ! j) \<and>
      accidents_db (states_after cfg st reqs ! j)
        = accidents_db ((st # states_after cfg st reqs) ! j) \<and>
      accidents_collection (states_after cfg st reqs ! j)
        = accidents_collection ((st # states_after cfg st reqs) ! j) \<and>
      db_firestore (states_after cfg st reqs ! j)
        = db_firestore ((st # states_after cfg st reqs) ! j))"
proof (intro conjI impI)
  let ?R = "detect_route cfg e st body"
  {
    assume h: "accident_positive (fst ?R) \<and>
      now e - last_alert_time st \<ge> real_of_int (ALERT_COOLDOWN_SECONDS cfg)"
    then show d: "dispatched (fst ?R)" by (simp add: detect_route_dispatched)
    then show "alert_attempted st (snd ?R)" by (simp add: detect_route_attempted)
    from d show "last_alert_time (snd ?R) = now e" by (simp add: detect_route_last)
  }
  {
    assume h: "now e - last_alert_time st \<ge> real_of_int (ALERT_COOLDOWN_SECONDS cfg)"
    then show "gate_and_dispatch cfg e st True c v r
        = (Result (r\<lparr>alert_sent := Some True, alert_suppressed := Some False\<rparr>),
           snd (send_alert cfg e (gate_set st (now e))
                  \<lparr>location = get_location_info cfg e (fst (current_location st))
                                (snd (current_location st)),
                   coordinates = current_location st,
                   confidence = c, vehicles_detected = v\<rparr>))"
      by (simp add: gate_and_dispatch_def gate_check_def gate_set_def Let_def)
    from h show "last_alert_time (snd (gate_and_dispatch cfg e st True c v r)) = now e"
      by (simp add: gate_and_dispatch_last)
  }
  {
    assume h: "i < j \<and> j < length reqs \<and>
      accident_positive (fst (run_requests cfg st reqs) ! i) \<and>
      now (fst (reqs ! i)) - last_alert_time ((st # states_after cfg st reqs) ! i)
        \<ge> real_of_int (ALERT_COOLDOWN_SECONDS cfg) \<and>
      now (fst (reqs ! i)) \<le> now (fst (reqs ! j)) \<and>
      now (fst (reqs ! j)) - now (fst (reqs ! i)) < real_of_int (ALERT_COOLDOWN_SECONDS cfg)"
    then have i: "i < length reqs" and j: "j < length reqs" and ij: "i < j" by simp_all
    from h have pos: "0 \<le> ALERT_COOLDOWN_SECONDS cfg" by simp
    from h show di: "dispatched (fst (run_requests cfg st reqs) ! i)"
      by (simp add: run_requests_nth[OF i] detect_route_dispatched)
    then show "last_alert_time (states_after cfg st reqs ! i) = now (fst (reqs ! i))"
      by (simp add: run_requests_nth[OF i] states_after_nth[OF i] detect_route_last)
    show dj: "\<not> dispatched (fst (run_requests cfg st reqs) ! j)"
    proof
      assume "dispatched (fst (run_requests cfg st reqs) ! j)"
      from run_requests_spacing[OF pos ij j di this] h show False by simp
    qed
    then show "\<not> alert_attempted ((st # states_after cfg st reqs) ! j)
        (states_after cfg st reqs ! j)"
      by (simp add: run_requests_attempted[OF j])
    from dj show "trace (states_after cfg st reqs ! j)
        = trace ((st # states_after cfg st reqs) ! j)"
      by (rule run_requests_quiet(1)[OF j])
    from dj show "accidents_db (states_after cfg st reqs ! j)
        = accidents_db ((st # states_after cfg st reqs) ! j)"
      by (rule run_requests_quiet(2)[OF j])
    from dj show "accidents_collection (states_after cfg st reqs ! j)
        = accidents_collection ((st # states_after cfg st reqs) ! j)"
      by (rule run_requests_quiet(3)[OF j])
    from dj show "db_firestore (states_after cfg st reqs ! j)
        = db_firestore ((st # states_after cfg st reqs) ! j)"
      by (rule run_requests_quiet(4)[OF j])
  }
qed

theorem failed_dispatch_consumes_cooldown_witness:
  "accident_positive (fst (detect_route demo_cfg ((env_at 1000)\<lparr>insert_one_ok := False\<rparr>)
       mongo_state (frame_request 1))) \<and>
   now ((env_at 1000)\<lparr>insert_one_ok := False\<rparr>) - last_alert_time mongo_state
     \<ge> real_of_int (ALERT_COOLDOWN_SECONDS demo_cfg) \<and>
   \<not> fst (send_alert demo_cfg ((env_at 1000)\<lparr>insert_one_ok := False\<rparr>)
           (gate_set mongo_state 1000)
           \<lparr>location = Lat_Lng 28.6139 77.2090, coordinates = (28.6139, 77.2090),
            confidence = 0.1, vehicles_detected = 0\<rparr>) \<and>
   detect_route demo_cfg ((env_at 1000)\<lparr>insert_one_ok := False\<rparr>) mongo_state (frame_request 1)
     = (Result \<lparr>r_accident_detected = True, r_confidence = 0.1, r_vehicles_detected = 0,
                r_boxes = [], r_timestamp = ''2026-01-01T00:00:00'', demo_mode = Some True,
                alert_sent = Some True, alert_suppressed = Some False\<rparr>,
        mongo_state\<lparr>last_alert_time := 1000, trace := [Print_error_sending_alert]\<rparr>) \<and>
   map dispatched (fst (run_requests demo_cfg mongo_state
       [((env_at 1000)\<lparr>insert_one_ok := False\<rparr>, frame_request 1),
        (env_at 1010, frame_request 2), (env_at 1019, frame_request 3)]))
     = [True, False, False] \<and>
   map accident_positive (fst (run_requests demo_cfg mongo_state
       [((env_at 1000)\<lparr>insert_one_ok := False\<rparr>, frame_request 1),
        (env_at 1010, frame_request 2), (env_at 1019, frame_request 3)]))
     = [True, True, True] \<and>
   map trace (states_after demo_cfg mongo_state
       [((env_at 1000)\<lparr>insert_one_ok := False\<rparr>, frame_request 1),
        (env_at 1010, frame_request 2), (env_at 1019, frame_request 3)])
     = [[Print_error_sending_alert], [Print_error_sending_alert], [Print_error_sending_alert]] \<and>
   map accidents_collection (states_after demo_cfg mongo_state
       [((env_at 1000)\<lparr>insert_one_ok := False\<rparr>, frame_request 1),
        (env_at 1010, frame_request 2), (env_at 1019, frame_request 3)])
     = [Some [], Some [], Some []]"
  using failed_dispatch_consumes_cooldown
          [where cfg = demo_cfg and e = "(env_at 1000)\<lparr>insert_one_ok := False\<rparr>"
             and st = mongo_state and body = "frame_request 1" and i = 0 and j = 2
             and reqs = "[((env_at 1000)\<lparr>insert_one_ok := False\<rparr>, frame_request 1),
                          (env_at 1010, frame_request 2), (env_at 1019, frame_request 3)]"]
  by (simp add: route_defs)

subsection \<open>Two requests at the gate at once\<close>

text \<open>
  C6, as stated, fails. Two requests 0.001 seconds apart that both run the check of
  line 562 before either runs the assignment of line 563 both pass the gate.
\<close>

theorem gate_race_counterexample:
  "(1000.001::real) - 1000 < real_of_int (ALERT_COOLDOWN_SECONDS demo_cfg) \<and>
   run_schedule demo_cfg 1000 1000.001 [Thread_A, Thread_B, Thread_A, Thread_B]
       (At_check, At_check, fresh_state)
     = (Passed, Passed, fresh_state\<lparr>last_alert_time := 1000.001\<rparr>)"
  by (simp add: gate_check_def gate_set_def demo_cfg_def yolo_cfg_def fresh_state_def
      init_last_alert_time_def)

text \<open>
  C6, amended. The check of line 562 and the assignment of line 563 are two statements
  with no lock around them. When one request runs both before the other runs either, at
  most one of two requests less than the cooldown apart passes. When both run the check
  before either runs the assignment, in any of the four orders, both pass exactly when
  each clock value is at least the cooldown past the old \<^verbatim>\<open>last_alert_time\<close>.
\<close>

theorem gate_serial_or_racing:
  "(ta \<le> tb \<and> tb - ta < real_of_int (ALERT_COOLDOWN_SECONDS cfg) \<longrightarrow>
      \<not> both_passed (run_schedule cfg ta tb [Thread_A, Thread_A, Thread_B, Thread_B]
                        (At_check, At_check, st))) \<and>
   (tb \<le> ta \<and> ta - tb < real_of_int (ALERT_COOLDOWN_SECONDS cfg) \<longrightarrow>
      \<not> both_passed (run_schedule cfg ta tb [Thread_B, Thread_B, Thread_A, Thread_A]
                        (At_check, At_check, st))) \<and>
   both_passed (run_schedule cfg ta tb [Thread_A, Thread_B, Thread_A, Thread_B]
                  (At_check, At_check, st))
     = (gate_check cfg st ta \<and> gate_check cfg st tb) \<and>
   both_passed (run_schedule cfg ta tb [Thread_A, Thread_B, Thread_B, Thread_A]
                  (At_check, At_check, st))
     = (gate_check cfg st ta \<and> gate_check cfg st tb) \<and>
   both_passed (run_schedule cfg ta tb [Thread_B, Thread_A, Thread_A, Thread_B]
                  (At_check, At_check, st))
     = (gate_check cfg st ta \<and> gate_check cfg st tb) \<and>
   both_passed (run_schedule cfg ta tb [Thread_B, Thread_A, Thread_B, Thread_A]
                  (At_check, At_check, st))
     = (gate_check cfg st ta \<and> gate_check cfg st tb)"
  by (auto simp: gate_check_def gate_set_def)

theorem gate_serial_or_racing_witness:
  "(1000::real) \<le> 1010 \<and> (1010::real) - 1000 < real_of_int (ALERT_COOLDOWN_SECONDS demo_cfg) \<and>
   run_schedule demo_cfg 1000 1010 [Thread_A, Thread_A, Thread_B, Thread_B]
       (At_check, At_check, fresh_state)
     = (Passed, Suppressed, fresh_state\<lparr>last_alert_time := 1000\<rparr>) \<and>
   gate_check demo_cfg fresh_state 1000 \<and> gate_check demo_cfg fresh_state 1010 \<and>
   both_passed (run_schedule demo_cfg 1000 1010 [Thread_A, Thread_B, Thread_A, Thread_B]
                  (At_check, At_check, fresh_state))"
  using gate_serial_or_racing [of 1000 1010 demo_cfg fresh_state]
  by (simp add: gate_check_def gate_set_def demo_cfg_def yolo_cfg_def fresh_state_def
      init_last_alert_time_def)

subsection \<open>Degraded mode\<close>

text \<open>
  C7, as stated, fails. Without the vision libraries the route answers from its own demo
  branch: with the draw \<^verbatim>\<open>random.random() = 0.9\<close> it reports an accident at confidence
  0.1 and no vehicle, which the rule of line 277 rejects at threshold 0.5. With the
  libraries present and no model loaded, the detector's mock branch answers and the
  response carries no \<^verbatim>\<open>demo_mode\<close> key.
\<close>

theorem degraded_mode_rule_counterexample:
  "\<not> COMPUTER_VISION_AVAILABLE demo_cfg \<and> model (yolo_cfg\<lparr>model := None\<rparr>) = None \<and>
   fst (detect_route demo_cfg (env_at 1000) fresh_state (frame_request 1))
     = Result \<lparr>r_accident_detected = True, r_confidence = 0.1, r_vehicles_detected = 0,
               r_boxes = [], r_timestamp = ''2026-01-01T00:00:00'', demo_mode = Some True,
               alert_sent = Some True, alert_suppressed = Some False\<rparr> \<and>
   \<not> raw_condition (accident_threshold (detector fresh_state)) 0.1 0 \<and>
   fst (detect_route (yolo_cfg\<lparr>model := None\<rparr>) (env_at 1000) fresh_state (frame_request 1))
     = Result \<lparr>r_accident_detected = False, r_confidence = 0.1, r_vehicles_detected = 0,
               r_boxes = [], r_timestamp = ''2026-01-01T00:00:00'', demo_mode = None,
               alert_sent = None, alert_suppressed = Some False\<rparr>"
  by (simp add: route_defs)

text \<open>
  C7, amended. The draws being in their ranges (\<^verbatim>\<open>random()\<close> between 0 and 1,
  \<^verbatim>\<open>randint(0, 3)\<close> at most 3): the mock branch of \<^verbatim>\<open>AccidentDetector.detect_accident\<close>
  returns a score between 0.1 and 0.9, a vehicle count of at most 3, no boxes, and
  \<^verbatim>\<open>is_accident\<close> by the rule of the model-backed path (score above the threshold and
  at least one vehicle), leaves the detector unchanged, and carries no flag; the demo
  branch of the route, taken when a vision library is missing, sets
  \<^verbatim>\<open>demo_mode = True\<close>, a confidence between 0.1 and 0.95, a vehicle count of at most 3,
  and \<^verbatim>\<open>accident_detected\<close> as \<^verbatim>\<open>random.random() > 0.8\<close>, whatever the threshold and
  the count; and when the libraries are present but no model is loaded, the response is
  built from the detector's mock branch and has no \<^verbatim>\<open>demo_mode\<close> key.
\<close>

theorem degraded_mode_outcomes:
  "0 \<le> rnd_unit e \<and> rnd_unit e \<le> 1 \<and> rnd_randint e \<le> 3 \<longrightarrow>
     (\<not> COMPUTER_VISION_AVAILABLE cfg \<or> \<not> YOLO_AVAILABLE cfg \<or> model cfg = None \<longrightarrow>
        detect_accident cfg e d f
          = ((raw_condition (accident_threshold d) (uniform 0.1 0.9 (rnd_unit e)) (rnd_randint e),
              uniform 0.1 0.9 (rnd_unit e), rnd_randint e, []), d) \<and>
        0.1 \<le> uniform 0.1 0.9 (rnd_unit e) \<and> uniform 0.1 0.9 (rnd_unit e) \<le> 0.9) \<and>
     ((\<not> COMPUTER_VISION_AVAILABLE cfg \<or> \<not> YOLO_AVAILABLE cfg) \<and> image data \<noteq> No_image \<longrightarrow>
        (\<exists>r. fst (detect_route cfg e st (Some data)) = Result r \<and>
              demo_mode r = Some True \<and>
              r_accident_detected r = (rnd_random e > 0.8) \<and>
              r_confidence r = uniform 0.1 0.95 (rnd_unit e) \<and>
              0.1 \<le> r_confidence r \<and> r_confidence r \<le> 0.95 \<and>
              r_vehicles_detected r = rnd_randint e \<and> r_boxes r = [])) \<and>
     (COMPUTER_VISION_AVAILABLE cfg \<and> YOLO_AVAILABLE cfg \<and> model cfg = None \<and>
      image data = Image frame \<longrightarrow>
        (\<exists>r. fst (detect_route cfg e st (Some data)) = Result r \<and>
              demo_mode r = None \<and>
              r_accident_detected r
                = raw_condition
                    (accident_threshold (detector (snd (detect_route cfg e st (Some data)))))
                    (r_confidence r) (r_vehicles_detected r) \<and>
              r_confidence r = uniform 0.1 0.9 (rnd_unit e) \<and>
              0.1 \<le> r_confidence r \<and> r_confidence r \<le> 0.9 \<and>
              r_vehicles_detected r = rnd_randint e \<and> r_boxes r = []))"
proof (intro impI conjI)
  assume rng: "0 \<le> rnd_unit e \<and> rnd_unit e \<le> 1 \<and> rnd_randint e \<le> 3"
  have u9: "0.1 \<le> uniform 0.1 0.9 (rnd_unit e) \<and> uniform 0.1 0.9 (rnd_unit e) \<le> 0.9"
    using rng by (simp add: uniform_def)
  have u95: "0.1 \<le> uniform 0.1 0.95 (rnd_unit e) \<and> uniform 0.1 0.95 (rnd_unit e) \<le> 0.95"
    using rng by (simp add: uniform_def)
  show "0.1 \<le> uniform 0.1 0.9 (rnd_unit e)" using u9 by simp
  show "uniform 0.1 0.9 (rnd_unit e) \<le> 0.9" using u9 by simp
  {
    assume m: "\<not> COMPUTER_VISION_AVAILABLE cfg \<or> \<not> YOLO_AVAILABLE cfg \<or> model cfg = None"
    then show "detect_accident cfg e d f
          = ((raw_condition (accident_threshold d) (uniform 0.1 0.9 (rnd_unit e)) (rnd_randint e),
              uniform 0.1 0.9 (rnd_unit e), rnd_randint e, []), d)"
      by (auto simp: detect_accident_def Let_def)
  }
  {
    assume a: "(\<not> COMPUTER_VISION_AVAILABLE cfg \<or> \<not> YOLO_AVAILABLE cfg) \<and> image data \<noteq> No_image"
    then show "\<exists>r. fst (detect_route cfg e st (Some data)) = Result r \<and>
              demo_mode r = Some True \<and>
              r_accident_detected r = (rnd_random e > 0.8) \<and>
              r_confidence r = uniform 0.1 0.95 (rnd_unit e) \<and>
              0.1 \<le> r_confidence r \<and> r_confidence r \<le> 0.95 \<and>
              r_vehicles_detected r = rnd_randint e \<and> r_boxes r = []"
      using u95
      by (auto simp: detect_route_def gate_and_dispatch_def gate_check_def Let_def)
  }
  {
    assume a: "COMPUTER_VISION_AVAILABLE cfg \<and> YOLO_AVAILABLE cfg \<and> model cfg = None \<and>
      image data = Image frame"
    have thr: "accident_threshold (detector (snd (detect_route cfg e st (Some data))))
      = (case threshold data of
          Threshold t \<Rightarrow> max 0.1 (min 1.0 t)
        | Threshold_int n \<Rightarrow>
            (case py_float n of
               Some t \<Rightarrow> max 0.1 (min 1.0 t)
             | None \<Rightarrow> accident_threshold (detector st))
        | No_threshold \<Rightarrow> accident_threshold (detector st)
        | Bad_threshold \<Rightarrow> accident_threshold (detector st))"
      by (rule detect_route_threshold)
    show "\<exists>r. fst (detect_route cfg e st (Some data)) = Result r \<and>
              demo_mode r = None \<and>
              r_accident_detected r
                = raw_condition
                    (accident_threshold (detector (snd (detect_route cfg e st (Some data)))))
                    (r_confidence r) (r_vehicles_detected r) \<and>
              r_confidence r = uniform 0.1 0.9 (rnd_unit e) \<and>
              0.1 \<le> r_confidence r \<and> r_confidence r \<le> 0.9 \<and>
              r_vehicles_detected r = rnd_randint e \<and> r_boxes r = []"
      unfolding thr using a u9
      by (auto simp: detect_route_def gate_and_dispatch_def gate_check_def set_threshold_def
            detect_accident_def Let_def
          split: threshold_field.splits option.splits)
  }
qed

theorem degraded_mode_outcomes_witness:
  "0 \<le> rnd_unit (env_at 1000) \<and> rnd_unit (env_at 1000) \<le> 1 \<and> rnd_randint (env_at 1000) \<le> 3 \<and>
   \<not> COMPUTER_VISION_AVAILABLE demo_cfg \<and>
   image \<lparr>image = Image 1, threshold = No_threshold\<rparr> \<noteq> No_image \<and>
   detect_accident demo_cfg (env_at 1000) seen_frame0 1 = ((False, 0.1, 0, []), seen_frame0) \<and>
   fst (detect_route demo_cfg (env_at 1000) fresh_state
          (Some \<lparr>image = Image 1, threshold = No_threshold\<rparr>))
     = Result \<lparr>r_accident_detected = True, r_confidence = 0.1, r_vehicles_detected = 0,
               r_boxes = [], r_timestamp = ''2026-01-01T00:00:00'', demo_mode = Some True,
               alert_sent = Some True, alert_suppressed = Some False\<rparr>"
  using degraded_mode_outcomes
          [of "env_at 1000" demo_cfg seen_frame0 1 "\<lparr>image = Image 1, threshold = No_threshold\<rparr>"
              fresh_state 1]
  by (simp add: route_defs)

subsection \<open>The route /accidents\<close>








end
